theory Spec2Isabelle
  imports Main "HOL-Library.Sublist"
begin

section \<open>The Empress RAG API gateway (fastapi_app.py)\<close>

text \<open>
  The gateway is a FastAPI application with two static GET handlers and four POST
  handlers. Each POST handler calls one function of the module \<open>rag_pipeline\<close>, reads
  keys of the dictionary it returns, builds a pydantic response model and turns every
  \<open>Exception\<close> raised on the way into \<open>HTTPException(status_code=500, ...)\<close>.

  The module \<open>rag_pipeline\<close> is not part of the source at hand: its four functions are
  parameters of the handlers below.
\<close>

subsection \<open>Python values\<close>

text \<open>
  The values a pipeline result or a JSON body holds: \<open>None\<close>, strings, lists,
  dictionaries (as association lists) and other objects, given by class name and identity
  (a retrieved document, for one). An object of the last kind has no \<open>__len__\<close>.
\<close>

datatype pyval =
    PyNone
  | PyStr string
  | PyList "pyval list"
  | PyDict "(string \<times> pyval) list"
  | PyObject string nat

type_synonym pydict = "string \<rightharpoonup> pyval"

subsection \<open>Exceptions\<close>

text \<open>
  An exception object, as far as the handlers look at it: whether it is an instance of
  \<open>Exception\<close> (what \<open>except Exception\<close> tests) and the text \<open>str(e)\<close>.
  \<^item> \<open>Exception c s\<close>: an instance of a subclass \<open>c\<close> of \<open>Exception\<close>, with \<open>str(e) = s\<close>;
  \<^item> \<open>HTTPException code detail s\<close>: a \<open>fastapi.HTTPException\<close> (a subclass of
    \<open>Exception\<close>) with its \<open>status_code\<close> and \<open>detail\<close>, and \<open>str(e) = s\<close>;
  \<^item> \<open>BaseException c s\<close>: an instance of a class \<open>c\<close> that derives from
    \<open>BaseException\<close> but not from \<open>Exception\<close> (\<open>SystemExit\<close>,
    \<open>KeyboardInterrupt\<close>, \<open>GeneratorExit\<close>), with \<open>str(e) = s\<close>.
\<close>

datatype pyexc =
    Exception string string
  | HTTPException nat string string
  | BaseException string string

fun isinstance_Exception :: "pyexc \<Rightarrow> bool" where
  "isinstance_Exception (Exception c s) = True"
| "isinstance_Exception (HTTPException code detail s) = True"
| "isinstance_Exception (BaseException c s) = False"

fun str_exc :: "pyexc \<Rightarrow> string" where
  "str_exc (Exception c s) = s"
| "str_exc (HTTPException code detail s) = s"
| "str_exc (BaseException c s) = s"

text \<open>
  \<open>repr\<close> of a string that holds no quote, backslash or control character: the string
  between single quotes. The handlers apply it to the literal keys only.
\<close>

definition quoted :: "string \<Rightarrow> string" where
  "quoted s = CHR 0x27 # s @ [CHR 0x27]"

text \<open>\<open>d[k]\<close> on a missing key raises \<open>KeyError(k)\<close>, and \<open>str(KeyError(k))\<close> is \<open>repr(k)\<close>.\<close>

definition KeyError :: "string \<Rightarrow> pyexc" where
  "KeyError k = Exception ''KeyError'' (quoted k)"

definition TypeError :: "string \<Rightarrow> pyexc" where
  "TypeError msg = Exception ''TypeError'' msg"

text \<open>\<open>pydantic.ValidationError\<close> derives from \<open>ValueError\<close>, hence from \<open>Exception\<close>.\<close>

definition ValidationError :: "string \<Rightarrow> pyexc" where
  "ValidationError msg = Exception ''ValidationError'' msg"

subsection \<open>Built-in operations the handlers use\<close>

fun type_name :: "pyval \<Rightarrow> string" where
  "type_name PyNone = ''NoneType''"
| "type_name (PyStr s) = ''str''"
| "type_name (PyList xs) = ''list''"
| "type_name (PyDict kvs) = ''dict''"
| "type_name (PyObject c i) = c"

text \<open>\<open>len(v)\<close>: the length of a string or list, the number of keys of a dictionary, a
  \<open>TypeError\<close> for a value without length.\<close>

fun py_len :: "pyval \<Rightarrow> pyexc + nat" where
  "py_len (PyStr s) = Inr (length s)"
| "py_len (PyList xs) = Inr (length xs)"
| "py_len (PyDict kvs) = Inr (length (remdups (map fst kvs)))"
| "py_len v = Inl (TypeError (''object of type '' @ quoted (type_name v) @ '' has no len()''))"

text \<open>
  The two reads of a dictionary, \<open>d[k]\<close> and \<open>d.get(k, default)\<close>. Each returns its
  value together with the dictionary as the read leaves it.
\<close>

definition getitem :: "pydict \<Rightarrow> string \<Rightarrow> (pyexc + pyval) \<times> pydict" where
  "getitem d k = (case d k of None \<Rightarrow> (Inl (KeyError k), d) | Some v \<Rightarrow> (Inr v, d))"

definition get_default :: "pydict \<Rightarrow> string \<Rightarrow> pyval \<Rightarrow> pyval \<times> pydict" where
  "get_default d k dflt = (case d k of None \<Rightarrow> (dflt, d) | Some v \<Rightarrow> (v, d))"

subsection \<open>Request and response models\<close>

record QARequest =
  query :: string

record DoctorMatchingRequest =
  symptoms :: string

record AffirmationRequest =
  categories :: "string list"

record ProductRecommendationRequest =
  user_input :: string

record QAResponse =
  response :: string
  retrieved_documents_count :: int

record DoctorMatchingResponse =
  response :: string
  retrieved_documents_count :: int

record AffirmationResponse =
  response :: string
  affirmations :: "string list"
  retrieved_documents_count :: int

record ProductRecommendationResponse =
  response :: string
  products :: "string list"
  retrieved_documents_count :: int

text \<open>
  Validation of a field by pydantic, for the values of \<open>pyval\<close>: a field annotated
  \<open>str\<close> takes a string, a field annotated \<open>List[str]\<close> takes a list of strings; every
  other value is refused.
\<close>

fun str_field :: "pyval \<Rightarrow> string option" where
  "str_field (PyStr s) = Some s"
| "str_field v = None"

fun list_str_field :: "pyval \<Rightarrow> string list option" where
  "list_str_field (PyList xs) = those (map str_field xs)"
| "list_str_field v = None"

text \<open>
  The text of a \<open>ValidationError\<close> is pydantic's own. It is a parameter \<open>verr\<close> of the
  model: a function of the model's name and of the keyword arguments given to it.
\<close>

type_synonym error_text = "string \<Rightarrow> (string \<times> pyval) list \<Rightarrow> string"

definition QAResponse_init :: "error_text \<Rightarrow> pyval \<Rightarrow> int \<Rightarrow> pyexc + QAResponse" where
  "QAResponse_init verr resp n =
     (case str_field resp of
        Some s \<Rightarrow>
          Inr \<lparr>QAResponse.response = s, QAResponse.retrieved_documents_count = n\<rparr>
      | None \<Rightarrow> Inl (ValidationError (verr ''QAResponse'' [(''response'', resp)])))"

definition DoctorMatchingResponse_init ::
  "error_text \<Rightarrow> pyval \<Rightarrow> int \<Rightarrow> pyexc + DoctorMatchingResponse" where
  "DoctorMatchingResponse_init verr resp n =
     (case str_field resp of
        Some s \<Rightarrow>
          Inr \<lparr>DoctorMatchingResponse.response = s,
               DoctorMatchingResponse.retrieved_documents_count = n\<rparr>
      | None \<Rightarrow>
          Inl (ValidationError (verr ''DoctorMatchingResponse'' [(''response'', resp)])))"

definition AffirmationResponse_init ::
  "error_text \<Rightarrow> pyval \<Rightarrow> pyval \<Rightarrow> int \<Rightarrow> pyexc + AffirmationResponse" where
  "AffirmationResponse_init verr resp affs n =
     (case (str_field resp, list_str_field affs) of
        (Some s, Some as) \<Rightarrow>
          Inr \<lparr>AffirmationResponse.response = s,
               AffirmationResponse.affirmations = as,
               AffirmationResponse.retrieved_documents_count = n\<rparr>
      | _ \<Rightarrow>
          Inl (ValidationError
                 (verr ''AffirmationResponse'' [(''response'', resp), (''affirmations'', affs)])))"

definition ProductRecommendationResponse_init ::
  "error_text \<Rightarrow> pyval \<Rightarrow> pyval \<Rightarrow> int \<Rightarrow> pyexc + ProductRecommendationResponse" where
  "ProductRecommendationResponse_init verr resp prods n =
     (case (str_field resp, list_str_field prods) of
        (Some s, Some ps) \<Rightarrow>
          Inr \<lparr>ProductRecommendationResponse.response = s,
               ProductRecommendationResponse.products = ps,
               ProductRecommendationResponse.retrieved_documents_count = n\<rparr>
      | _ \<Rightarrow>
          Inl (ValidationError
                 (verr ''ProductRecommendationResponse''
                    [(''response'', resp), (''products'', prods)])))"

subsection \<open>Outcomes of a handler and the pipeline\<close>

text \<open>
  A handler returns a value, raises \<open>HTTPException(status_code, detail)\<close> itself, or
  lets an exception it did not catch propagate to its caller.
\<close>

datatype 'r outcome =
    Return 'r
  | Raise_HTTPException nat string
  | Propagate pyexc

text \<open>
  A pipeline function is called with one argument. It returns a dictionary (a mapping,
  by the contract of the collaborator) or raises; what else it does (the calls it makes,
  the indexes it keeps) is a change of the world \<open>'w\<close> it runs in.
\<close>

type_synonym ('a, 'w) pipeline = "'a \<Rightarrow> 'w \<Rightarrow> (pyexc + pydict) \<times> 'w"

text \<open>
  The clause \<open>except Exception as e: raise HTTPException(status_code=500,
  detail=f"<pre>{str(e)}")\<close>, shared by the four POST handlers. An exception that is
  no instance of \<open>Exception\<close> does not match the clause.
\<close>

definition except_Exception :: "string \<Rightarrow> pyexc \<Rightarrow> 'r outcome" where
  "except_Exception pre e =
     (if isinstance_Exception e then Raise_HTTPException 500 (pre @ str_exc e)
      else Propagate e)"

subsection \<open>Building the response models from a pipeline result\<close>

text \<open>
  The keyword arguments are evaluated from left to right, then the model validates them.
  Each function returns the model (or the exception raised) and the result dictionary
  as the reads leave it.
\<close>

definition QAResponse_from :: "error_text \<Rightarrow> pydict \<Rightarrow> (pyexc + QAResponse) \<times> pydict" where
  "QAResponse_from verr result =
     (case getitem result ''response'' of
        (Inl e, result1) \<Rightarrow> (Inl e, result1)
      | (Inr resp, result1) \<Rightarrow>
          (case getitem result1 ''retrieved_documents'' of
             (Inl e, result2) \<Rightarrow> (Inl e, result2)
           | (Inr docs, result2) \<Rightarrow>
               (case py_len docs of
                  Inl e \<Rightarrow> (Inl e, result2)
                | Inr n \<Rightarrow> (QAResponse_init verr resp (int n), result2))))"

definition DoctorMatchingResponse_from ::
  "error_text \<Rightarrow> pydict \<Rightarrow> (pyexc + DoctorMatchingResponse) \<times> pydict" where
  "DoctorMatchingResponse_from verr result =
     (case getitem result ''response'' of
        (Inl e, result1) \<Rightarrow> (Inl e, result1)
      | (Inr resp, result1) \<Rightarrow>
          (case getitem result1 ''retrieved_documents'' of
             (Inl e, result2) \<Rightarrow> (Inl e, result2)
           | (Inr docs, result2) \<Rightarrow>
               (case py_len docs of
                  Inl e \<Rightarrow> (Inl e, result2)
                | Inr n \<Rightarrow> (DoctorMatchingResponse_init verr resp (int n), result2))))"

definition AffirmationResponse_from ::
  "error_text \<Rightarrow> pydict \<Rightarrow> (pyexc + AffirmationResponse) \<times> pydict" where
  "AffirmationResponse_from verr result =
     (case getitem result ''response'' of
        (Inl e, result1) \<Rightarrow> (Inl e, result1)
      | (Inr resp, result1) \<Rightarrow>
          (case get_default result1 ''affirmations'' (PyList []) of
             (affs, result2) \<Rightarrow>
               (case getitem result2 ''retrieved_documents'' of
                  (Inl e, result3) \<Rightarrow> (Inl e, result3)
                | (Inr docs, result3) \<Rightarrow>
                    (case py_len docs of
                       Inl e \<Rightarrow> (Inl e, result3)
                     | Inr n \<Rightarrow> (AffirmationResponse_init verr resp affs (int n), result3)))))"

definition ProductRecommendationResponse_from ::
  "error_text \<Rightarrow> pydict \<Rightarrow> (pyexc + ProductRecommendationResponse) \<times> pydict" where
  "ProductRecommendationResponse_from verr result =
     (case getitem result ''response'' of
        (Inl e, result1) \<Rightarrow> (Inl e, result1)
      | (Inr resp, result1) \<Rightarrow>
          (case get_default result1 ''products'' (PyList []) of
             (prods, result2) \<Rightarrow>
               (case getitem result2 ''retrieved_documents'' of
                  (Inl e, result3) \<Rightarrow> (Inl e, result3)
                | (Inr docs, result3) \<Rightarrow>
                    (case py_len docs of
                       Inl e \<Rightarrow> (Inl e, result3)
                     | Inr n \<Rightarrow>
                         (ProductRecommendationResponse_init verr resp prods (int n),
                          result3)))))"

subsection \<open>The handlers\<close>

definition root :: "'w \<Rightarrow> pyval outcome \<times> 'w" where
  "root w =
     (Return (PyDict
        [(''message'', PyStr ''Welcome to the Empress RAG API''),
         (''endpoints'', PyDict
            [(''/qa'',
              PyStr ''Q&A Chatbot - answers questions based on the knowledge base''),
             (''/doctor-matching'',
              PyStr ''Doctor Symptoms Matching - matches symptoms to doctors''),
             (''/affirmations'',
              PyStr ''Affirmation Recommendation - suggests affirmations based on categories''),
             (''/product-recommendations'',
              PyStr ''Product Recommendation - recommends products based on user input'')])]),
      w)"

definition qa_endpoint ::
  "error_text \<Rightarrow> (string, 'w) pipeline \<Rightarrow> QARequest \<Rightarrow> 'w \<Rightarrow> QAResponse outcome \<times> 'w" where
  "qa_endpoint verr chatbot_qa request w =
     (case chatbot_qa (query request) w of
        (Inl e, w') \<Rightarrow> (except_Exception ''Error processing Q&A request: '' e, w')
      | (Inr result, w') \<Rightarrow>
          (case fst (QAResponse_from verr result) of
             Inl e \<Rightarrow> (except_Exception ''Error processing Q&A request: '' e, w')
           | Inr r \<Rightarrow> (Return r, w')))"

definition doctor_matching_endpoint ::
  "error_text \<Rightarrow> (string, 'w) pipeline \<Rightarrow> DoctorMatchingRequest \<Rightarrow> 'w \<Rightarrow>
   DoctorMatchingResponse outcome \<times> 'w" where
  "doctor_matching_endpoint verr doctor_symptoms_matching request w =
     (case doctor_symptoms_matching (symptoms request) w of
        (Inl e, w') \<Rightarrow>
          (except_Exception ''Error processing doctor matching request: '' e, w')
      | (Inr result, w') \<Rightarrow>
          (case fst (DoctorMatchingResponse_from verr result) of
             Inl e \<Rightarrow>
               (except_Exception ''Error processing doctor matching request: '' e, w')
           | Inr r \<Rightarrow> (Return r, w')))"

definition affirmations_endpoint ::
  "error_text \<Rightarrow> (string list, 'w) pipeline \<Rightarrow> AffirmationRequest \<Rightarrow> 'w \<Rightarrow>
   AffirmationResponse outcome \<times> 'w" where
  "affirmations_endpoint verr affirmation_recommendation request w =
     (case affirmation_recommendation (categories request) w of
        (Inl e, w') \<Rightarrow> (except_Exception ''Error processing affirmation request: '' e, w')
      | (Inr result, w') \<Rightarrow>
          (case fst (AffirmationResponse_from verr result) of
             Inl e \<Rightarrow> (except_Exception ''Error processing affirmation request: '' e, w')
           | Inr r \<Rightarrow> (Return r, w')))"

definition product_recommendations_endpoint ::
  "error_text \<Rightarrow> (string, 'w) pipeline \<Rightarrow> ProductRecommendationRequest \<Rightarrow> 'w \<Rightarrow>
   ProductRecommendationResponse outcome \<times> 'w" where
  "product_recommendations_endpoint verr product_recommendation request w =
     (case product_recommendation (user_input request) w of
        (Inl e, w') \<Rightarrow>
          (except_Exception ''Error processing product recommendation request: '' e, w')
      | (Inr result, w') \<Rightarrow>
          (case fst (ProductRecommendationResponse_from verr result) of
             Inl e \<Rightarrow>
               (except_Exception ''Error processing product recommendation request: '' e, w')
           | Inr r \<Rightarrow> (Return r, w')))"

definition health_check :: "'w \<Rightarrow> pyval outcome \<times> 'w" where
  "health_check w =
     (Return (PyDict
        [(''status'', PyStr ''healthy''), (''message'', PyStr ''Empress RAG API is running'')]),
      w)"

subsection \<open>Routing of a POST request\<close>

text \<open>
  What \<open>@app.post(path)\<close> and the annotation \<open>request: QARequest\<close> ask of FastAPI:
  the JSON body is checked against the request model, and the handler runs on the model
  built from it.
\<close>

fun dict_lookup :: "pyval \<Rightarrow> string \<Rightarrow> pyval option" where
  "dict_lookup (PyDict kvs) k = map_of kvs k"
| "dict_lookup v k = None"

definition QARequest_validate :: "pyval \<Rightarrow> QARequest option" where
  "QARequest_validate body =
     (case dict_lookup body ''query'' of
        None \<Rightarrow> None
      | Some v \<Rightarrow> (case str_field v of None \<Rightarrow> None | Some s \<Rightarrow> Some \<lparr>query = s\<rparr>))"

definition DoctorMatchingRequest_validate :: "pyval \<Rightarrow> DoctorMatchingRequest option" where
  "DoctorMatchingRequest_validate body =
     (case dict_lookup body ''symptoms'' of
        None \<Rightarrow> None
      | Some v \<Rightarrow> (case str_field v of None \<Rightarrow> None | Some s \<Rightarrow> Some \<lparr>symptoms = s\<rparr>))"

definition AffirmationRequest_validate :: "pyval \<Rightarrow> AffirmationRequest option" where
  "AffirmationRequest_validate body =
     (case dict_lookup body ''categories'' of
        None \<Rightarrow> None
      | Some v \<Rightarrow>
          (case list_str_field v of None \<Rightarrow> None | Some cs \<Rightarrow> Some \<lparr>categories = cs\<rparr>))"

definition ProductRecommendationRequest_validate ::
  "pyval \<Rightarrow> ProductRecommendationRequest option" where
  "ProductRecommendationRequest_validate body =
     (case dict_lookup body ''user_input'' of
        None \<Rightarrow> None
      | Some v \<Rightarrow> (case str_field v of None \<Rightarrow> None | Some s \<Rightarrow> Some \<lparr>user_input = s\<rparr>))"

text \<open>
  The reply to one request: the handler's model with status 200, an error with a status
  code and a detail text, the rejection of a body that fails its schema, or no reply of
  the application's own, when an exception leaves the handler.
\<close>

datatype 'r http_response =
    Success 'r
  | Error_Response nat string
  | Schema_Rejection
  | Unhandled pyexc

fun status_code :: "'r http_response \<Rightarrow> nat option" where
  "status_code (Success r) = Some 200"
| "status_code (Error_Response code detail) = Some code"
| "status_code Schema_Rejection = Some 422"
| "status_code (Unhandled e) = None"

fun reply :: "'r outcome \<Rightarrow> 'r http_response" where
  "reply (Return r) = Success r"
| "reply (Raise_HTTPException code detail) = Error_Response code detail"
| "reply (Propagate e) = Unhandled e"

text \<open>
  Modelled from the spec: the request handling of the FastAPI framework, which is not
  part of the source. "Request bodies are structurally validated against their schema
  (field presence and type) before the pipeline is invoked; a structurally invalid body
  must be rejected with an HTTP 4xx response before any pipeline call is attempted."
  The status of the rejection is FastAPI's 422.
\<close>

definition post_route ::
  "(pyval \<Rightarrow> 'req option) \<Rightarrow> ('req \<Rightarrow> 'w \<Rightarrow> 'r outcome \<times> 'w) \<Rightarrow> pyval \<Rightarrow> 'w \<Rightarrow>
   'r http_response \<times> 'w" where
  "post_route validate endpoint body w =
     (case validate body of
        None \<Rightarrow> (Schema_Rejection, w)
      | Some request \<Rightarrow> (case endpoint request w of (out, w') \<Rightarrow> (reply out, w')))"

definition post_qa ::
  "error_text \<Rightarrow> (string, 'w) pipeline \<Rightarrow> pyval \<Rightarrow> 'w \<Rightarrow> QAResponse http_response \<times> 'w" where
  "post_qa verr chatbot_qa = post_route QARequest_validate (qa_endpoint verr chatbot_qa)"

definition post_doctor_matching ::
  "error_text \<Rightarrow> (string, 'w) pipeline \<Rightarrow> pyval \<Rightarrow> 'w \<Rightarrow>
   DoctorMatchingResponse http_response \<times> 'w" where
  "post_doctor_matching verr doctor_symptoms_matching =
     post_route DoctorMatchingRequest_validate
       (doctor_matching_endpoint verr doctor_symptoms_matching)"

definition post_affirmations ::
  "error_text \<Rightarrow> (string list, 'w) pipeline \<Rightarrow> pyval \<Rightarrow> 'w \<Rightarrow>
   AffirmationResponse http_response \<times> 'w" where
  "post_affirmations verr affirmation_recommendation =
     post_route AffirmationRequest_validate
       (affirmations_endpoint verr affirmation_recommendation)"

definition post_product_recommendations ::
  "error_text \<Rightarrow> (string, 'w) pipeline \<Rightarrow> pyval \<Rightarrow> 'w \<Rightarrow>
   ProductRecommendationResponse http_response \<times> 'w" where
  "post_product_recommendations verr product_recommendation =
     post_route ProductRecommendationRequest_validate
       (product_recommendations_endpoint verr product_recommendation)"

subsection \<open>Stub collaborators\<close>

text \<open>
  Pipeline functions for concrete runs: one that returns a given dictionary, one that
  raises a given exception, and one that also records its argument in the world, a list
  of the calls made so far. With them, a short stand-in for the text of a
  \<open>ValidationError\<close> and a retrieved document.
\<close>

definition returning :: "pydict \<Rightarrow> ('a, 'w) pipeline" where
  "returning result a w = (Inr result, w)"

definition raising :: "pyexc \<Rightarrow> ('a, 'w) pipeline" where
  "raising e a w = (Inl e, w)"

definition recording :: "pydict \<Rightarrow> ('a, 'a list) pipeline" where
  "recording result a calls = (Inr result, calls @ [a])"

definition brief :: error_text where
  "brief model kwargs = ''validation error for '' @ model"

definition doc :: "nat \<Rightarrow> pyval" where
  "doc i = PyObject ''Document'' i"

definition result_of :: "(string \<times> pyval) list \<Rightarrow> pydict" where
  "result_of kvs = map_of kvs"

text \<open>Two results of the shape the pipeline documents, with two and with one document.\<close>

definition qa_result :: pydict where
  "qa_result =
     result_of [(''response'', PyStr ''It is...''), (''retrieved_documents'', PyList [doc 1, doc 2])]"

definition affirmation_result :: pydict where
  "affirmation_result =
     result_of [(''response'', PyStr ''Here are some affirmations''),
                (''retrieved_documents'', PyList [doc 1])]"

text \<open>The first result with one more key, which no handler reads.\<close>

definition extended_result :: pydict where
  "extended_result = qa_result(''sources'' \<mapsto> PyList [PyStr ''handbook.pdf''])"

text \<open>A request for each POST handler, and three exceptions a pipeline may raise.\<close>

definition qa_request :: QARequest where
  "qa_request = \<lparr>query = ''What is perimenopause?''\<rparr>"

definition doctor_request :: DoctorMatchingRequest where
  "doctor_request = \<lparr>symptoms = ''hot flashes''\<rparr>"

definition affirmation_request :: AffirmationRequest where
  "affirmation_request = \<lparr>categories = [''confidence'']\<rparr>"

definition product_request :: ProductRecommendationRequest where
  "product_request = \<lparr>user_input = ''supplements''\<rparr>"

definition index_unavailable :: pyexc where
  "index_unavailable = Exception ''RuntimeError'' ''index unavailable''"

definition not_found :: pyexc where
  "not_found = HTTPException 404 ''Not Found'' ''404: Not Found''"

definition system_exit :: pyexc where
  "system_exit = BaseException ''SystemExit'' ''1''"

section \<open>Properties\<close>

subsection \<open>Response construction\<close>

text \<open>Building a response model leaves the result dictionary as it was.\<close>

lemma QAResponse_from_unchanged: "snd (QAResponse_from verr result) = result"
  by (simp add: QAResponse_from_def getitem_def split: option.splits sum.splits)

lemma DoctorMatchingResponse_from_unchanged:
  "snd (DoctorMatchingResponse_from verr result) = result"
  by (simp add: DoctorMatchingResponse_from_def getitem_def split: option.splits sum.splits)

lemma AffirmationResponse_from_unchanged:
  "snd (AffirmationResponse_from verr result) = result"
  by (simp add: AffirmationResponse_from_def getitem_def get_default_def
      split: option.splits sum.splits)

lemma ProductRecommendationResponse_from_unchanged:
  "snd (ProductRecommendationResponse_from verr result) = result"
  by (simp add: ProductRecommendationResponse_from_def getitem_def get_default_def
      split: option.splits sum.splits)

lemma QAResponse_from_value:
  "fst (QAResponse_from verr result) =
     (case result ''response'' of
        None \<Rightarrow> Inl (KeyError ''response'')
      | Some resp \<Rightarrow>
          (case result ''retrieved_documents'' of
             None \<Rightarrow> Inl (KeyError ''retrieved_documents'')
           | Some docs \<Rightarrow>
               (case py_len docs of
                  Inl e \<Rightarrow> Inl e
                | Inr n \<Rightarrow> QAResponse_init verr resp (int n))))"
  by (simp add: QAResponse_from_def getitem_def split: option.splits sum.splits)

lemma DoctorMatchingResponse_from_value:
  "fst (DoctorMatchingResponse_from verr result) =
     (case result ''response'' of
        None \<Rightarrow> Inl (KeyError ''response'')
      | Some resp \<Rightarrow>
          (case result ''retrieved_documents'' of
             None \<Rightarrow> Inl (KeyError ''retrieved_documents'')
           | Some docs \<Rightarrow>
               (case py_len docs of
                  Inl e \<Rightarrow> Inl e
                | Inr n \<Rightarrow> DoctorMatchingResponse_init verr resp (int n))))"
  by (simp add: DoctorMatchingResponse_from_def getitem_def split: option.splits sum.splits)

lemma AffirmationResponse_from_value:
  "fst (AffirmationResponse_from verr result) =
     (case result ''response'' of
        None \<Rightarrow> Inl (KeyError ''response'')
      | Some resp \<Rightarrow>
          (case result ''retrieved_documents'' of
             None \<Rightarrow> Inl (KeyError ''retrieved_documents'')
           | Some docs \<Rightarrow>
               (case py_len docs of
                  Inl e \<Rightarrow> Inl e
                | Inr n \<Rightarrow>
                    AffirmationResponse_init verr resp
                      (case result ''affirmations'' of None \<Rightarrow> PyList [] | Some a \<Rightarrow> a)
                      (int n))))"
  by (simp add: AffirmationResponse_from_def getitem_def get_default_def
      split: option.splits sum.splits)

lemma ProductRecommendationResponse_from_value:
  "fst (ProductRecommendationResponse_from verr result) =
     (case result ''response'' of
        None \<Rightarrow> Inl (KeyError ''response'')
      | Some resp \<Rightarrow>
          (case result ''retrieved_documents'' of
             None \<Rightarrow> Inl (KeyError ''retrieved_documents'')
           | Some docs \<Rightarrow>
               (case py_len docs of
                  Inl e \<Rightarrow> Inl e
                | Inr n \<Rightarrow>
                    ProductRecommendationResponse_init verr resp
                      (case result ''products'' of None \<Rightarrow> PyList [] | Some a \<Rightarrow> a)
                      (int n))))"
  by (simp add: ProductRecommendationResponse_from_def getitem_def get_default_def
      split: option.splits sum.splits)

subsection \<open>The handlers by the outcome of the pipeline call\<close>

lemma qa_endpoint_raised:
  "chatbot_qa (query request) w = (Inl e, w') \<Longrightarrow>
   qa_endpoint verr chatbot_qa request w =
     (except_Exception ''Error processing Q&A request: '' e, w')"
  by (simp add: qa_endpoint_def)

lemma qa_endpoint_returned:
  "chatbot_qa (query request) w = (Inr result, w') \<Longrightarrow>
   qa_endpoint verr chatbot_qa request w =
     (case fst (QAResponse_from verr result) of
        Inl e \<Rightarrow> (except_Exception ''Error processing Q&A request: '' e, w')
      | Inr r \<Rightarrow> (Return r, w'))"
  by (simp add: qa_endpoint_def)

lemma doctor_matching_endpoint_raised:
  "doctor_symptoms_matching (symptoms request) w = (Inl e, w') \<Longrightarrow>
   doctor_matching_endpoint verr doctor_symptoms_matching request w =
     (except_Exception ''Error processing doctor matching request: '' e, w')"
  by (simp add: doctor_matching_endpoint_def)

lemma doctor_matching_endpoint_returned:
  "doctor_symptoms_matching (symptoms request) w = (Inr result, w') \<Longrightarrow>
   doctor_matching_endpoint verr doctor_symptoms_matching request w =
     (case fst (DoctorMatchingResponse_from verr result) of
        Inl e \<Rightarrow> (except_Exception ''Error processing doctor matching request: '' e, w')
      | Inr r \<Rightarrow> (Return r, w'))"
  by (simp add: doctor_matching_endpoint_def)

lemma affirmations_endpoint_raised:
  "affirmation_recommendation (categories request) w = (Inl e, w') \<Longrightarrow>
   affirmations_endpoint verr affirmation_recommendation request w =
     (except_Exception ''Error processing affirmation request: '' e, w')"
  by (simp add: affirmations_endpoint_def)

lemma affirmations_endpoint_returned:
  "affirmation_recommendation (categories request) w = (Inr result, w') \<Longrightarrow>
   affirmations_endpoint verr affirmation_recommendation request w =
     (case fst (AffirmationResponse_from verr result) of
        Inl e \<Rightarrow> (except_Exception ''Error processing affirmation request: '' e, w')
      | Inr r \<Rightarrow> (Return r, w'))"
  by (simp add: affirmations_endpoint_def)

lemma product_recommendations_endpoint_raised:
  "product_recommendation (user_input request) w = (Inl e, w') \<Longrightarrow>
   product_recommendations_endpoint verr product_recommendation request w =
     (except_Exception ''Error processing product recommendation request: '' e, w')"
  by (simp add: product_recommendations_endpoint_def)

lemma product_recommendations_endpoint_returned:
  "product_recommendation (user_input request) w = (Inr result, w') \<Longrightarrow>
   product_recommendations_endpoint verr product_recommendation request w =
     (case fst (ProductRecommendationResponse_from verr result) of
        Inl e \<Rightarrow>
          (except_Exception ''Error processing product recommendation request: '' e, w')
      | Inr r \<Rightarrow> (Return r, w'))"
  by (simp add: product_recommendations_endpoint_def)

subsection \<open>The clause except Exception\<close>

lemma except_Exception_caught:
  "isinstance_Exception e \<Longrightarrow>
   except_Exception pre e = Raise_HTTPException 500 (pre @ str_exc e)"
  by (simp add: except_Exception_def)

lemma except_Exception_status:
  "except_Exception pre e = Raise_HTTPException code d \<Longrightarrow> code = 500 \<and> prefix pre d"
  by (auto simp: except_Exception_def split: if_splits)

lemma except_Exception_escapes:
  "except_Exception pre e = Propagate e' \<Longrightarrow> e' = e \<and> \<not> isinstance_Exception e"
  by (auto simp: except_Exception_def split: if_splits)

text \<open>
  The body of a handler's \<open>try\<close>, seen from outside: the pipeline call gives \<open>res\<close>, the
  response model is built by \<open>build\<close>, and one clause handles both.
\<close>

lemma handled_status:
  assumes "(case res of
              Inl e \<Rightarrow> except_Exception pre e
            | Inr result \<Rightarrow>
                (case build result of Inl e \<Rightarrow> except_Exception pre e | Inr r \<Rightarrow> Return r))
           = Raise_HTTPException code d"
  shows "code = 500 \<and> prefix pre d"
  using assms by (auto split: sum.splits dest: except_Exception_status)

lemma handled_escapes:
  assumes "(case res of
              Inl e \<Rightarrow> except_Exception pre e
            | Inr result \<Rightarrow>
                (case build result of Inl e \<Rightarrow> except_Exception pre e | Inr r \<Rightarrow> Return r))
           = Propagate e'"
    and "\<And>result e. build result = Inl e \<Longrightarrow> isinstance_Exception e"
  shows "res = Inl e' \<and> \<not> isinstance_Exception e'"
  using assms by (auto split: sum.splits dest: except_Exception_escapes)

text \<open>The exceptions raised while a response model is built are instances of \<open>Exception\<close>.\<close>

lemma py_len_Exception: "py_len v = Inl e \<Longrightarrow> isinstance_Exception e"
  by (cases v) (auto simp: TypeError_def)

lemma QAResponse_from_Exception:
  "fst (QAResponse_from verr result) = Inl e \<Longrightarrow> isinstance_Exception e"
  by (auto simp: QAResponse_from_value QAResponse_init_def KeyError_def ValidationError_def
      dest: py_len_Exception split: option.splits sum.splits)

lemma DoctorMatchingResponse_from_Exception:
  "fst (DoctorMatchingResponse_from verr result) = Inl e \<Longrightarrow> isinstance_Exception e"
  by (auto simp: DoctorMatchingResponse_from_value DoctorMatchingResponse_init_def KeyError_def
      ValidationError_def
      dest: py_len_Exception split: option.splits sum.splits)

lemma AffirmationResponse_from_Exception:
  "fst (AffirmationResponse_from verr result) = Inl e \<Longrightarrow> isinstance_Exception e"
  by (auto simp: AffirmationResponse_from_value AffirmationResponse_init_def KeyError_def
      ValidationError_def
      dest: py_len_Exception split: option.splits sum.splits)

lemma ProductRecommendationResponse_from_Exception:
  "fst (ProductRecommendationResponse_from verr result) = Inl e \<Longrightarrow> isinstance_Exception e"
  by (auto simp: ProductRecommendationResponse_from_value ProductRecommendationResponse_init_def
      KeyError_def ValidationError_def
      dest: py_len_Exception split: option.splits sum.splits)

text \<open>The outcome of each handler as a function of what the pipeline call gives.\<close>

lemma qa_endpoint_outcome:
  "fst (qa_endpoint verr chatbot_qa request w) =
     (case fst (chatbot_qa (query request) w) of
        Inl e \<Rightarrow> except_Exception ''Error processing Q&A request: '' e
      | Inr result \<Rightarrow>
          (case fst (QAResponse_from verr result) of
             Inl e \<Rightarrow> except_Exception ''Error processing Q&A request: '' e
           | Inr r \<Rightarrow> Return r))"
  by (cases "chatbot_qa (query request) w")
    (simp add: qa_endpoint_def split: sum.splits)

lemma doctor_matching_endpoint_outcome:
  "fst (doctor_matching_endpoint verr doctor_symptoms_matching request w) =
     (case fst (doctor_symptoms_matching (symptoms request) w) of
        Inl e \<Rightarrow> except_Exception ''Error processing doctor matching request: '' e
      | Inr result \<Rightarrow>
          (case fst (DoctorMatchingResponse_from verr result) of
             Inl e \<Rightarrow> except_Exception ''Error processing doctor matching request: '' e
           | Inr r \<Rightarrow> Return r))"
  by (cases "doctor_symptoms_matching (symptoms request) w")
    (simp add: doctor_matching_endpoint_def split: sum.splits)

lemma affirmations_endpoint_outcome:
  "fst (affirmations_endpoint verr affirmation_recommendation request w) =
     (case fst (affirmation_recommendation (categories request) w) of
        Inl e \<Rightarrow> except_Exception ''Error processing affirmation request: '' e
      | Inr result \<Rightarrow>
          (case fst (AffirmationResponse_from verr result) of
             Inl e \<Rightarrow> except_Exception ''Error processing affirmation request: '' e
           | Inr r \<Rightarrow> Return r))"
  by (cases "affirmation_recommendation (categories request) w")
    (simp add: affirmations_endpoint_def split: sum.splits)

lemma product_recommendations_endpoint_outcome:
  "fst (product_recommendations_endpoint verr product_recommendation request w) =
     (case fst (product_recommendation (user_input request) w) of
        Inl e \<Rightarrow> except_Exception ''Error processing product recommendation request: '' e
      | Inr result \<Rightarrow>
          (case fst (ProductRecommendationResponse_from verr result) of
             Inl e \<Rightarrow> except_Exception ''Error processing product recommendation request: '' e
           | Inr r \<Rightarrow> Return r))"
  by (cases "product_recommendation (user_input request) w")
    (simp add: product_recommendations_endpoint_def split: sum.splits)

subsection \<open>The count of retrieved documents\<close>

lemma qa_endpoint_count:
  assumes "chatbot_qa (query request) w = (Inr result, w')"
    and "result ''retrieved_documents'' = Some docs" and "py_len docs = Inr k"
    and "fst (qa_endpoint verr chatbot_qa request w) = Return r"
  shows "QAResponse.retrieved_documents_count r = int k"
  using assms
  by (auto simp: qa_endpoint_returned QAResponse_from_value QAResponse_init_def
      except_Exception_def split: option.splits sum.splits if_splits)

lemma doctor_matching_endpoint_count:
  assumes "doctor_symptoms_matching (symptoms request) w = (Inr result, w')"
    and "result ''retrieved_documents'' = Some docs" and "py_len docs = Inr k"
    and "fst (doctor_matching_endpoint verr doctor_symptoms_matching request w) = Return r"
  shows "DoctorMatchingResponse.retrieved_documents_count r = int k"
  using assms
  by (auto simp: doctor_matching_endpoint_returned DoctorMatchingResponse_from_value
      DoctorMatchingResponse_init_def except_Exception_def
      split: option.splits sum.splits if_splits)

lemma affirmations_endpoint_count:
  assumes "affirmation_recommendation (categories request) w = (Inr result, w')"
    and "result ''retrieved_documents'' = Some docs" and "py_len docs = Inr k"
    and "fst (affirmations_endpoint verr affirmation_recommendation request w) = Return r"
  shows "AffirmationResponse.retrieved_documents_count r = int k"
  using assms
  by (auto simp: affirmations_endpoint_returned AffirmationResponse_from_value
      AffirmationResponse_init_def except_Exception_def
      split: option.splits sum.splits if_splits)

lemma product_recommendations_endpoint_count:
  assumes "product_recommendation (user_input request) w = (Inr result, w')"
    and "result ''retrieved_documents'' = Some docs" and "py_len docs = Inr k"
    and "fst (product_recommendations_endpoint verr product_recommendation request w) = Return r"
  shows "ProductRecommendationResponse.retrieved_documents_count r = int k"
  using assms
  by (auto simp: product_recommendations_endpoint_returned
      ProductRecommendationResponse_from_value ProductRecommendationResponse_init_def
      except_Exception_def split: option.splits sum.splits if_splits)

text \<open>
  Claim C1. For each of the four POST handlers: when the pipeline function returns a
  result dictionary whose \<open>retrieved_documents\<close> value has length \<open>k\<close> (\<open>len\<close> of it is
  \<open>k\<close>) and the handler returns a response model, the model's
  \<open>retrieved_documents_count\<close> is exactly \<open>k\<close>.
\<close>

theorem retrieved_documents_count_is_length:
  "(chatbot_qa (query rq) w1 = (Inr result1, w1') \<and>
    result1 ''retrieved_documents'' = Some docs1 \<and> py_len docs1 = Inr k1 \<and>
    fst (qa_endpoint verr chatbot_qa rq w1) = Return r1
    \<longrightarrow> QAResponse.retrieved_documents_count r1 = int k1) \<and>
   (doctor_symptoms_matching (symptoms rd) w2 = (Inr result2, w2') \<and>
    result2 ''retrieved_documents'' = Some docs2 \<and> py_len docs2 = Inr k2 \<and>
    fst (doctor_matching_endpoint verr doctor_symptoms_matching rd w2) = Return r2
    \<longrightarrow> DoctorMatchingResponse.retrieved_documents_count r2 = int k2) \<and>
   (affirmation_recommendation (categories ra) w3 = (Inr result3, w3') \<and>
    result3 ''retrieved_documents'' = Some docs3 \<and> py_len docs3 = Inr k3 \<and>
    fst (affirmations_endpoint verr affirmation_recommendation ra w3) = Return r3
    \<longrightarrow> AffirmationResponse.retrieved_documents_count r3 = int k3) \<and>
   (product_recommendation (user_input rp) w4 = (Inr result4, w4') \<and>
    result4 ''retrieved_documents'' = Some docs4 \<and> py_len docs4 = Inr k4 \<and>
    fst (product_recommendations_endpoint verr product_recommendation rp w4) = Return r4
    \<longrightarrow> ProductRecommendationResponse.retrieved_documents_count r4 = int k4)"
  by (intro conjI impI; elim conjE)
    (erule (3) qa_endpoint_count doctor_matching_endpoint_count affirmations_endpoint_count
      product_recommendations_endpoint_count)+

theorem retrieved_documents_count_is_length_witness:
  "(returning qa_result (query qa_request) () = (Inr qa_result, ()) \<and>
    qa_result ''retrieved_documents'' = Some (PyList [doc 1, doc 2]) \<and>
    py_len (PyList [doc 1, doc 2]) = Inr 2 \<and>
    fst (qa_endpoint brief (returning qa_result) qa_request ()) =
      Return \<lparr>QAResponse.response = ''It is...'',
              QAResponse.retrieved_documents_count = 2\<rparr>) \<and>
   (returning qa_result (symptoms doctor_request) () = (Inr qa_result, ()) \<and>
    fst (doctor_matching_endpoint brief (returning qa_result) doctor_request ()) =
      Return \<lparr>DoctorMatchingResponse.response = ''It is...'',
              DoctorMatchingResponse.retrieved_documents_count = 2\<rparr>) \<and>
   (returning affirmation_result (categories affirmation_request) () =
      (Inr affirmation_result, ()) \<and>
    affirmation_result ''retrieved_documents'' = Some (PyList [doc 1]) \<and>
    py_len (PyList [doc 1]) = Inr 1 \<and>
    fst (affirmations_endpoint brief (returning affirmation_result) affirmation_request ()) =
      Return \<lparr>AffirmationResponse.response = ''Here are some affirmations'',
              AffirmationResponse.affirmations = [],
              AffirmationResponse.retrieved_documents_count = 1\<rparr>) \<and>
   (returning affirmation_result (user_input product_request) () =
      (Inr affirmation_result, ()) \<and>
    fst (product_recommendations_endpoint brief (returning affirmation_result)
           product_request ()) =
      Return \<lparr>ProductRecommendationResponse.response = ''Here are some affirmations'',
              ProductRecommendationResponse.products = [],
              ProductRecommendationResponse.retrieved_documents_count = 1\<rparr>)"
  using retrieved_documents_count_is_length
    [where verr = brief
       and chatbot_qa = "returning qa_result" and rq = qa_request
       and ?w1.0 = "()" and ?w1' = "()" and ?result1.0 = qa_result
       and ?docs1.0 = "PyList [doc 1, doc 2]" and ?k1.0 = 2
       and ?r1.0 = "\<lparr>QAResponse.response = ''It is...'',
                     QAResponse.retrieved_documents_count = 2\<rparr>"
       and doctor_symptoms_matching = "returning qa_result" and rd = doctor_request
       and ?w2.0 = "()" and ?w2' = "()" and ?result2.0 = qa_result
       and ?docs2.0 = "PyList [doc 1, doc 2]" and ?k2.0 = 2
       and ?r2.0 = "\<lparr>DoctorMatchingResponse.response = ''It is...'',
                     DoctorMatchingResponse.retrieved_documents_count = 2\<rparr>"
       and affirmation_recommendation = "returning affirmation_result"
       and ra = affirmation_request
       and ?w3.0 = "()" and ?w3' = "()" and ?result3.0 = affirmation_result
       and ?docs3.0 = "PyList [doc 1]" and ?k3.0 = 1
       and ?r3.0 = "\<lparr>AffirmationResponse.response = ''Here are some affirmations'',
                     AffirmationResponse.affirmations = [],
                     AffirmationResponse.retrieved_documents_count = 1\<rparr>"
       and product_recommendation = "returning affirmation_result" and rp = product_request
       and ?w4.0 = "()" and ?w4' = "()" and ?result4.0 = affirmation_result
       and ?docs4.0 = "PyList [doc 1]" and ?k4.0 = 1
       and ?r4.0 =
         "\<lparr>ProductRecommendationResponse.response = ''Here are some affirmations'',
           ProductRecommendationResponse.products = [],
           ProductRecommendationResponse.retrieved_documents_count = 1\<rparr>"]
  by (simp add: returning_def qa_result_def affirmation_result_def result_of_def doc_def
      qa_request_def doctor_request_def affirmation_request_def product_request_def
      qa_endpoint_def doctor_matching_endpoint_def affirmations_endpoint_def
      product_recommendations_endpoint_def QAResponse_from_value
      DoctorMatchingResponse_from_value AffirmationResponse_from_value
      ProductRecommendationResponse_from_value QAResponse_init_def
      DoctorMatchingResponse_init_def AffirmationResponse_init_def
      ProductRecommendationResponse_init_def)

subsection \<open>Exceptions raised by the pipeline\<close>

text \<open>
  Claim C2, as amended. For each of the four POST handlers: when the pipeline call raises
  an exception that is an instance of \<open>Exception\<close>, the handler raises
  \<open>HTTPException\<close> with status code 500 and a detail that is the handler's fixed prefix
  followed by \<open>str\<close> of the exception. The exception itself does not leave the handler.
\<close>

theorem exception_reported_as_500:
  "(chatbot_qa (query rq) w1 = (Inl e1, w1') \<and> isinstance_Exception e1
    \<longrightarrow> fst (qa_endpoint verr chatbot_qa rq w1) =
          Raise_HTTPException 500 (''Error processing Q&A request: '' @ str_exc e1)) \<and>
   (doctor_symptoms_matching (symptoms rd) w2 = (Inl e2, w2') \<and> isinstance_Exception e2
    \<longrightarrow> fst (doctor_matching_endpoint verr doctor_symptoms_matching rd w2) =
          Raise_HTTPException 500
            (''Error processing doctor matching request: '' @ str_exc e2)) \<and>
   (affirmation_recommendation (categories ra) w3 = (Inl e3, w3') \<and> isinstance_Exception e3
    \<longrightarrow> fst (affirmations_endpoint verr affirmation_recommendation ra w3) =
          Raise_HTTPException 500
              (''Error processing affirmation request: '' @ str_exc e3)) \<and>
   (product_recommendation (user_input rp) w4 = (Inl e4, w4') \<and> isinstance_Exception e4
    \<longrightarrow> fst (product_recommendations_endpoint verr product_recommendation rp w4) =
          Raise_HTTPException 500
            (''Error processing product recommendation request: '' @ str_exc e4))"
  by (simp add: qa_endpoint_raised doctor_matching_endpoint_raised affirmations_endpoint_raised
      product_recommendations_endpoint_raised except_Exception_caught)

theorem exception_reported_as_500_witness:
  "isinstance_Exception index_unavailable \<and>
   fst (qa_endpoint brief (raising index_unavailable) qa_request ()) =
     Raise_HTTPException 500 ''Error processing Q&A request: index unavailable'' \<and>
   fst (doctor_matching_endpoint brief (raising index_unavailable) doctor_request ()) =
     Raise_HTTPException 500
       ''Error processing doctor matching request: index unavailable'' \<and>
   fst (affirmations_endpoint brief (raising index_unavailable) affirmation_request ()) =
     Raise_HTTPException 500 ''Error processing affirmation request: index unavailable'' \<and>
   fst (product_recommendations_endpoint brief (raising index_unavailable)
          product_request ()) =
     Raise_HTTPException 500
       ''Error processing product recommendation request: index unavailable''"
  using exception_reported_as_500
    [where verr = brief
       and chatbot_qa = "raising index_unavailable" and rq = qa_request
       and doctor_symptoms_matching = "raising index_unavailable" and rd = doctor_request
       and affirmation_recommendation = "raising index_unavailable"
       and ra = affirmation_request
       and product_recommendation = "raising index_unavailable" and rp = product_request
       and ?e1.0 = index_unavailable and ?e2.0 = index_unavailable
       and ?e3.0 = index_unavailable and ?e4.0 = index_unavailable
       and ?w1.0 = "()" and ?w2.0 = "()" and ?w3.0 = "()" and ?w4.0 = "()"
       and ?w1' = "()" and ?w2' = "()" and ?w3' = "()" and ?w4' = "()"]
  by (simp add: raising_def index_unavailable_def)

text \<open>
  The claim as first stated speaks of any fault. \<open>KeyboardInterrupt\<close> derives from
  \<open>BaseException\<close> only: raised by the pipeline, it is not matched by
  \<open>except Exception\<close>, leaves the handler, and no reply with status 500 and the prefix
  is made.
\<close>

theorem keyboard_interrupt_not_reported:
  "raising (BaseException ''KeyboardInterrupt'' '''')
     (symptoms \<lparr>symptoms = ''hot flashes''\<rparr>) ()
     = (Inl (BaseException ''KeyboardInterrupt'' ''''), ()) \<and>
   fst (doctor_matching_endpoint brief (raising (BaseException ''KeyboardInterrupt'' ''''))
          \<lparr>symptoms = ''hot flashes''\<rparr> ()) =
     Propagate (BaseException ''KeyboardInterrupt'' '''') \<and>
   fst (doctor_matching_endpoint brief (raising (BaseException ''KeyboardInterrupt'' ''''))
          \<lparr>symptoms = ''hot flashes''\<rparr> ()) \<noteq>
     Raise_HTTPException 500
       (''Error processing doctor matching request: '' @
        str_exc (BaseException ''KeyboardInterrupt'' ''''))"
  by (simp add: raising_def doctor_matching_endpoint_def except_Exception_def)

subsection \<open>A result without the optional list\<close>

lemma affirmations_endpoint_default:
  assumes "affirmation_recommendation (categories request) w = (Inr result, w')"
    and "result ''affirmations'' = None"
    and "result ''response'' = Some (PyStr s)"
    and "result ''retrieved_documents'' = Some docs" and "py_len docs = Inr k"
  shows "fst (affirmations_endpoint verr affirmation_recommendation request w) =
           Return \<lparr>AffirmationResponse.response = s,
                   AffirmationResponse.affirmations = [],
                   AffirmationResponse.retrieved_documents_count = int k\<rparr>"
  using assms
  by (simp add: affirmations_endpoint_returned AffirmationResponse_from_value
      AffirmationResponse_init_def)

lemma product_recommendations_endpoint_default:
  assumes "product_recommendation (user_input request) w = (Inr result, w')"
    and "result ''products'' = None"
    and "result ''response'' = Some (PyStr s)"
    and "result ''retrieved_documents'' = Some docs" and "py_len docs = Inr k"
  shows "fst (product_recommendations_endpoint verr product_recommendation request w) =
           Return \<lparr>ProductRecommendationResponse.response = s,
                   ProductRecommendationResponse.products = [],
                   ProductRecommendationResponse.retrieved_documents_count = int k\<rparr>"
  using assms
  by (simp add: product_recommendations_endpoint_returned
      ProductRecommendationResponse_from_value ProductRecommendationResponse_init_def)

text \<open>
  Claim C3. For \<open>/affirmations\<close> and \<open>/product-recommendations\<close>: when the result
  dictionary has no key \<open>affirmations\<close> (respectively \<open>products\<close>) and holds a text
  under \<open>response\<close> and a sequence under \<open>retrieved_documents\<close>, the handler returns
  its response model, and the model's \<open>affirmations\<close> (respectively \<open>products\<close>) is the
  empty list.
\<close>

theorem missing_list_defaults_to_empty:
  "(affirmation_recommendation (categories ra) w3 = (Inr result3, w3') \<and>
    result3 ''affirmations'' = None \<and> result3 ''response'' = Some (PyStr s3) \<and>
    result3 ''retrieved_documents'' = Some docs3 \<and> py_len docs3 = Inr k3
    \<longrightarrow> fst (affirmations_endpoint verr affirmation_recommendation ra w3) =
          Return \<lparr>AffirmationResponse.response = s3,
                  AffirmationResponse.affirmations = [],
                  AffirmationResponse.retrieved_documents_count = int k3\<rparr>) \<and>
   (product_recommendation (user_input rp) w4 = (Inr result4, w4') \<and>
    result4 ''products'' = None \<and> result4 ''response'' = Some (PyStr s4) \<and>
    result4 ''retrieved_documents'' = Some docs4 \<and> py_len docs4 = Inr k4
    \<longrightarrow> fst (product_recommendations_endpoint verr product_recommendation rp w4) =
          Return \<lparr>ProductRecommendationResponse.response = s4,
                  ProductRecommendationResponse.products = [],
                  ProductRecommendationResponse.retrieved_documents_count = int k4\<rparr>)"
  by (intro conjI impI; elim conjE)
    (erule (4) affirmations_endpoint_default product_recommendations_endpoint_default)+

theorem missing_list_defaults_to_empty_witness:
  "affirmation_result ''affirmations'' = None \<and> affirmation_result ''products'' = None \<and>
   affirmation_result ''response'' = Some (PyStr ''Here are some affirmations'') \<and>
   affirmation_result ''retrieved_documents'' = Some (PyList [doc 1]) \<and>
   py_len (PyList [doc 1]) = Inr 1 \<and>
   fst (affirmations_endpoint brief (returning affirmation_result) affirmation_request ()) =
     Return \<lparr>AffirmationResponse.response = ''Here are some affirmations'',
             AffirmationResponse.affirmations = [],
             AffirmationResponse.retrieved_documents_count = 1\<rparr> \<and>
   fst (product_recommendations_endpoint brief (returning affirmation_result)
          product_request ()) =
     Return \<lparr>ProductRecommendationResponse.response = ''Here are some affirmations'',
             ProductRecommendationResponse.products = [],
             ProductRecommendationResponse.retrieved_documents_count = 1\<rparr>"
  using missing_list_defaults_to_empty
    [where verr = brief
       and affirmation_recommendation = "returning affirmation_result"
       and ra = affirmation_request
       and product_recommendation = "returning affirmation_result" and rp = product_request
       and ?w3.0 = "()" and ?w3' = "()" and ?w4.0 = "()" and ?w4' = "()"
       and ?result3.0 = affirmation_result and ?result4.0 = affirmation_result
       and ?s3.0 = "''Here are some affirmations''"
       and ?s4.0 = "''Here are some affirmations''"
       and ?docs3.0 = "PyList [doc 1]" and ?docs4.0 = "PyList [doc 1]"
       and ?k3.0 = 1 and ?k4.0 = 1]
  by (simp add: returning_def affirmation_result_def result_of_def)

subsection \<open>A result without an expected key\<close>

lemma qa_endpoint_missing_key:
  assumes "chatbot_qa (query request) w = (Inr result, w')"
    and "result ''response'' = None \<or> result ''retrieved_documents'' = None"
  shows "fst (qa_endpoint verr chatbot_qa request w) =
           Raise_HTTPException 500
             (''Error processing Q&A request: '' @
              quoted (if result ''response'' = None then ''response''
                      else ''retrieved_documents''))"
  using assms
  by (auto simp: qa_endpoint_returned QAResponse_from_value KeyError_def except_Exception_def)

lemma doctor_matching_endpoint_missing_key:
  assumes "doctor_symptoms_matching (symptoms request) w = (Inr result, w')"
    and "result ''response'' = None \<or> result ''retrieved_documents'' = None"
  shows "fst (doctor_matching_endpoint verr doctor_symptoms_matching request w) =
           Raise_HTTPException 500
             (''Error processing doctor matching request: '' @
              quoted (if result ''response'' = None then ''response''
                      else ''retrieved_documents''))"
  using assms
  by (auto simp: doctor_matching_endpoint_returned DoctorMatchingResponse_from_value KeyError_def
      except_Exception_def)

lemma affirmations_endpoint_missing_key:
  assumes "affirmation_recommendation (categories request) w = (Inr result, w')"
    and "result ''response'' = None \<or> result ''retrieved_documents'' = None"
  shows "fst (affirmations_endpoint verr affirmation_recommendation request w) =
           Raise_HTTPException 500
             (''Error processing affirmation request: '' @
              quoted (if result ''response'' = None then ''response''
                      else ''retrieved_documents''))"
  using assms
  by (auto simp: affirmations_endpoint_returned AffirmationResponse_from_value KeyError_def
      except_Exception_def)

lemma product_recommendations_endpoint_missing_key:
  assumes "product_recommendation (user_input request) w = (Inr result, w')"
    and "result ''response'' = None \<or> result ''retrieved_documents'' = None"
  shows "fst (product_recommendations_endpoint verr product_recommendation request w) =
           Raise_HTTPException 500
             (''Error processing product recommendation request: '' @
              quoted (if result ''response'' = None then ''response''
                      else ''retrieved_documents''))"
  using assms
  by (auto simp: product_recommendations_endpoint_returned
      ProductRecommendationResponse_from_value KeyError_def except_Exception_def)

text \<open>
  Claim C4. For each of the four POST handlers: when the pipeline returns a result
  dictionary without the key \<open>response\<close> or without the key \<open>retrieved_documents\<close>,
  the \<open>KeyError\<close> of the read is handled like a fault of the pipeline: the handler
  raises \<open>HTTPException\<close> with status code 500 and a detail that is its fixed prefix
  followed by the missing key between quotes (the first one read, when both are missing).
\<close>

theorem missing_key_reported_as_500:
  "(chatbot_qa (query rq) w1 = (Inr result1, w1') \<and>
    (result1 ''response'' = None \<or> result1 ''retrieved_documents'' = None)
    \<longrightarrow> fst (qa_endpoint verr chatbot_qa rq w1) =
          Raise_HTTPException 500
            (''Error processing Q&A request: '' @
             quoted (if result1 ''response'' = None then ''response''
                     else ''retrieved_documents''))) \<and>
   (doctor_symptoms_matching (symptoms rd) w2 = (Inr result2, w2') \<and>
    (result2 ''response'' = None \<or> result2 ''retrieved_documents'' = None)
    \<longrightarrow> fst (doctor_matching_endpoint verr doctor_symptoms_matching rd w2) =
          Raise_HTTPException 500
            (''Error processing doctor matching request: '' @
             quoted (if result2 ''response'' = None then ''response''
                     else ''retrieved_documents''))) \<and>
   (affirmation_recommendation (categories ra) w3 = (Inr result3, w3') \<and>
    (result3 ''response'' = None \<or> result3 ''retrieved_documents'' = None)
    \<longrightarrow> fst (affirmations_endpoint verr affirmation_recommendation ra w3) =
          Raise_HTTPException 500
            (''Error processing affirmation request: '' @
             quoted (if result3 ''response'' = None then ''response''
                     else ''retrieved_documents''))) \<and>
   (product_recommendation (user_input rp) w4 = (Inr result4, w4') \<and>
    (result4 ''response'' = None \<or> result4 ''retrieved_documents'' = None)
    \<longrightarrow> fst (product_recommendations_endpoint verr product_recommendation rp w4) =
          Raise_HTTPException 500
            (''Error processing product recommendation request: '' @
             quoted (if result4 ''response'' = None then ''response''
                     else ''retrieved_documents'')))"
  by (intro conjI impI; elim conjE)
    (erule (1) qa_endpoint_missing_key doctor_matching_endpoint_missing_key 
      affirmations_endpoint_missing_key product_recommendations_endpoint_missing_key)+

theorem missing_key_reported_as_500_witness:
  "result_of [(''retrieved_documents'', PyList [doc 1, doc 2])] ''response'' = None \<and>
   fst (qa_endpoint brief
          (returning (result_of [(''retrieved_documents'', PyList [doc 1, doc 2])]))
          qa_request ()) =
     Raise_HTTPException 500 (''Error processing Q&A request: '' @ quoted ''response'') \<and>
   result_of [(''response'', PyStr ''It is...'')] ''retrieved_documents'' = None \<and>
   fst (doctor_matching_endpoint brief
          (returning (result_of [(''response'', PyStr ''It is...'')])) doctor_request ()) =
     Raise_HTTPException 500
       (''Error processing doctor matching request: '' @ quoted ''retrieved_documents'') \<and>
   fst (affirmations_endpoint brief
          (returning (result_of [(''response'', PyStr ''It is...'')]))
          affirmation_request ()) =
     Raise_HTTPException 500
       (''Error processing affirmation request: '' @ quoted ''retrieved_documents'') \<and>
   result_of [] ''response'' = None \<and>
   fst (product_recommendations_endpoint brief (returning (result_of []))
          product_request ()) =
     Raise_HTTPException 500
       (''Error processing product recommendation request: '' @ quoted ''response'')"
  using missing_key_reported_as_500
    [where verr = brief
       and chatbot_qa =
         "returning (result_of [(''retrieved_documents'', PyList [doc 1, doc 2])])"
       and rq = qa_request
       and doctor_symptoms_matching =
         "returning (result_of [(''response'', PyStr ''It is...'')])"
       and rd = doctor_request
       and affirmation_recommendation =
         "returning (result_of [(''response'', PyStr ''It is...'')])"
       and ra = affirmation_request
       and product_recommendation = "returning (result_of [])" and rp = product_request
       and ?result1.0 = "result_of [(''retrieved_documents'', PyList [doc 1, doc 2])]"
       and ?result2.0 = "result_of [(''response'', PyStr ''It is...'')]"
       and ?result3.0 = "result_of [(''response'', PyStr ''It is...'')]"
       and ?result4.0 = "result_of []"
       and ?w1.0 = "()" and ?w2.0 = "()" and ?w3.0 = "()" and ?w4.0 = "()"
       and ?w1' = "()" and ?w2' = "()" and ?w3' = "()" and ?w4' = "()"]
  by (simp add: returning_def result_of_def)

subsection \<open>Bodies that fail their schema\<close>

lemma post_route_rejects:
  "validate body = None \<Longrightarrow> post_route validate endpoint body w = (Schema_Rejection, w)"
  by (simp add: post_route_def)

lemma post_route_accepts:
  "validate body = Some request \<Longrightarrow>
   post_route validate endpoint body w =
     (reply (fst (endpoint request w)), snd (endpoint request w))"
  by (simp add: post_route_def split: prod.splits)

text \<open>
  Claim C5. For each of the four POST routes: a body that fails the validation against
  the request model is answered with a rejection of status 4xx, and the world the
  pipeline runs in is left as it was, whatever the pipeline function is: the pipeline is
  not called, and no status 500 is reported. A body that passes is handed to the handler
  as the validated request model, and the reply is the handler's.
\<close>

theorem invalid_body_rejected_before_pipeline:
  "(QARequest_validate body1 = None
    \<longrightarrow> post_qa verr chatbot_qa body1 w1 = (Schema_Rejection, w1) \<and>
        (\<exists>c. status_code (fst (post_qa verr chatbot_qa body1 w1)) = Some c \<and>
             400 \<le> c \<and> c < 500)) \<and>
   (QARequest_validate good1 = Some rq
    \<longrightarrow> post_qa verr chatbot_qa good1 v1 =
          (reply (fst (qa_endpoint verr chatbot_qa rq v1)),
           snd (qa_endpoint verr chatbot_qa rq v1))) \<and>
   (DoctorMatchingRequest_validate body2 = None
    \<longrightarrow> post_doctor_matching verr doctor_symptoms_matching body2 w2 = (Schema_Rejection, w2) \<and>
        (\<exists>c. status_code (fst (post_doctor_matching verr doctor_symptoms_matching body2 w2)) = Some c \<and>
             400 \<le> c \<and> c < 500)) \<and>
   (DoctorMatchingRequest_validate good2 = Some rd
    \<longrightarrow> post_doctor_matching verr doctor_symptoms_matching good2 v2 =
          (reply (fst (doctor_matching_endpoint verr doctor_symptoms_matching rd v2)),
           snd (doctor_matching_endpoint verr doctor_symptoms_matching rd v2))) \<and>
   (AffirmationRequest_validate body3 = None
    \<longrightarrow> post_affirmations verr affirmation_recommendation body3 w3 = (Schema_Rejection, w3) \<and>
        (\<exists>c. status_code (fst (post_affirmations verr affirmation_recommendation body3 w3)) = Some c \<and>
             400 \<le> c \<and> c < 500)) \<and>
   (AffirmationRequest_validate good3 = Some ra
    \<longrightarrow> post_affirmations verr affirmation_recommendation good3 v3 =
          (reply (fst (affirmations_endpoint verr affirmation_recommendation ra v3)),
           snd (affirmations_endpoint verr affirmation_recommendation ra v3))) \<and>
   (ProductRecommendationRequest_validate body4 = None
    \<longrightarrow> post_product_recommendations verr product_recommendation body4 w4 = (Schema_Rejection, w4) \<and>
        (\<exists>c. status_code (fst (post_product_recommendations verr product_recommendation body4 w4)) = Some c \<and>
             400 \<le> c \<and> c < 500)) \<and>
   (ProductRecommendationRequest_validate good4 = Some rp
    \<longrightarrow> post_product_recommendations verr product_recommendation good4 v4 =
          (reply (fst (product_recommendations_endpoint verr product_recommendation rp v4)),
           snd (product_recommendations_endpoint verr product_recommendation rp v4)))"
  by (simp add: post_qa_def post_doctor_matching_def post_affirmations_def
      post_product_recommendations_def post_route_rejects post_route_accepts)

theorem invalid_body_rejected_before_pipeline_witness:
  "QARequest_validate (PyDict []) = None \<and>
   post_qa brief (recording qa_result) (PyDict []) [] = (Schema_Rejection, []) \<and>
   post_qa brief (recording qa_result)
       (PyDict [(''query'', PyStr ''What is perimenopause?'')]) [] =
     (Success \<lparr>QAResponse.response = ''It is...'', QAResponse.retrieved_documents_count = 2\<rparr>,
      [''What is perimenopause?'']) \<and>
   DoctorMatchingRequest_validate (PyDict [(''symptoms'', PyNone)]) = None \<and>
   post_doctor_matching brief (recording qa_result)
       (PyDict [(''symptoms'', PyNone)]) [] = (Schema_Rejection, []) \<and>
   post_doctor_matching brief (recording qa_result)
       (PyDict [(''symptoms'', PyStr ''hot flashes'')]) [] =
     (Success \<lparr>DoctorMatchingResponse.response = ''It is...'',
               DoctorMatchingResponse.retrieved_documents_count = 2\<rparr>,
      [''hot flashes'']) \<and>
   AffirmationRequest_validate (PyDict [(''categories'', PyStr ''confidence'')]) = None \<and>
   post_affirmations brief (recording qa_result)
       (PyDict [(''categories'', PyStr ''confidence'')]) [] = (Schema_Rejection, []) \<and>
   post_affirmations brief (recording qa_result)
       (PyDict [(''categories'', PyList [PyStr ''confidence''])]) [] =
     (Success \<lparr>AffirmationResponse.response = ''It is...'',
               AffirmationResponse.affirmations = [],
               AffirmationResponse.retrieved_documents_count = 2\<rparr>,
      [[''confidence'']]) \<and>
   ProductRecommendationRequest_validate (PyList []) = None \<and>
   post_product_recommendations brief (recording qa_result) (PyList []) [] = (Schema_Rejection, []) \<and>
   post_product_recommendations brief (recording qa_result)
       (PyDict [(''user_input'', PyStr ''supplements'')]) [] =
     (Success \<lparr>ProductRecommendationResponse.response = ''It is...'',
               ProductRecommendationResponse.products = [],
               ProductRecommendationResponse.retrieved_documents_count = 2\<rparr>,
      [''supplements''])"
  using invalid_body_rejected_before_pipeline
    [where verr = brief
       and chatbot_qa = "recording qa_result" and ?body1.0 = "PyDict []"
       and ?good1.0 = "PyDict [(''query'', PyStr ''What is perimenopause?'')]"
       and rq = qa_request and ?w1.0 = "[]" and ?v1.0 = "[]"
       and doctor_symptoms_matching = "recording qa_result" and ?body2.0 = "PyDict [(''symptoms'', PyNone)]"
       and ?good2.0 = "PyDict [(''symptoms'', PyStr ''hot flashes'')]"
       and rd = doctor_request and ?w2.0 = "[]" and ?v2.0 = "[]"
       and affirmation_recommendation = "recording qa_result" and ?body3.0 = "PyDict [(''categories'', PyStr ''confidence'')]"
       and ?good3.0 = "PyDict [(''categories'', PyList [PyStr ''confidence''])]"
       and ra = affirmation_request and ?w3.0 = "[]" and ?v3.0 = "[]"
       and product_recommendation = "recording qa_result" and ?body4.0 = "PyList []"
       and ?good4.0 = "PyDict [(''user_input'', PyStr ''supplements'')]"
       and rp = product_request and ?w4.0 = "[]" and ?v4.0 = "[]"]
  by (simp add: QARequest_validate_def DoctorMatchingRequest_validate_def
      AffirmationRequest_validate_def ProductRecommendationRequest_validate_def
      recording_def qa_result_def result_of_def doc_def
      qa_request_def doctor_request_def affirmation_request_def product_request_def
      qa_endpoint_def doctor_matching_endpoint_def affirmations_endpoint_def
      product_recommendations_endpoint_def QAResponse_from_value
      DoctorMatchingResponse_from_value AffirmationResponse_from_value
      ProductRecommendationResponse_from_value QAResponse_init_def
      DoctorMatchingResponse_init_def AffirmationResponse_init_def
      ProductRecommendationResponse_init_def)

subsection \<open>The static handlers\<close>

text \<open>
  Claim C6. \<open>GET /\<close> returns, in every world and without changing it, a body with a
  message and a dictionary \<open>endpoints\<close> whose keys are exactly the four paths \<open>/qa\<close>,
  \<open>/doctor-matching\<close>, \<open>/affirmations\<close> and \<open>/product-recommendations\<close>, each with a
  description that is a non-empty text. The handler raises nothing.
\<close>

theorem root_lists_four_endpoints:
  "\<exists>msg es.
     root w = (Return (PyDict [(''message'', PyStr msg), (''endpoints'', PyDict es)]), w) \<and>
     map fst es =
       [''/qa'', ''/doctor-matching'', ''/affirmations'', ''/product-recommendations''] \<and>
     list_all (\<lambda>v. \<exists>d. v = PyStr d \<and> d \<noteq> []) (map snd es)"
  unfolding root_def by (intro exI conjI, rule refl, simp_all)

text \<open>
  Claim C7. \<open>GET /health\<close> returns, in every world (whatever the state of the pipeline)
  and without changing it, the body with \<open>status\<close> \<open>healthy\<close> and a message. The handler
  raises nothing.
\<close>

theorem health_check_always_healthy:
  "\<exists>msg.
     health_check w =
       (Return (PyDict [(''status'', PyStr ''healthy''), (''message'', PyStr msg)]), w) \<and>
     msg \<noteq> []"
  unfolding health_check_def by (intro exI conjI, rule refl, simp)

subsection \<open>The status code of a handled exception\<close>

lemma qa_endpoint_status:
  assumes "fst (qa_endpoint verr chatbot_qa request w) = Raise_HTTPException code d"
  shows "code = 500 \<and> prefix ''Error processing Q&A request: '' d"
  using assms unfolding qa_endpoint_outcome by (rule handled_status)

lemma qa_endpoint_escapes:
  assumes "fst (qa_endpoint verr chatbot_qa request w) = Propagate e"
  shows "fst (chatbot_qa (query request) w) = Inl e \<and> \<not> isinstance_Exception e"
  using assms unfolding qa_endpoint_outcome
  by (rule handled_escapes) (rule QAResponse_from_Exception)

lemma qa_endpoint_Exception:
  assumes "chatbot_qa (query request) w = (Inl e, w')" and "isinstance_Exception e"
  shows "fst (qa_endpoint verr chatbot_qa request w) =
           Raise_HTTPException 500 (''Error processing Q&A request: '' @ str_exc e)"
  using assms by (simp add: qa_endpoint_raised except_Exception_caught)

lemma qa_endpoint_HTTPException:
  assumes "chatbot_qa (query request) w = (Inl (HTTPException code detail s), w')"
  shows "fst (qa_endpoint verr chatbot_qa request w) =
           Raise_HTTPException 500 (''Error processing Q&A request: '' @ s)"
  using assms by (simp add: qa_endpoint_raised except_Exception_def)

lemma doctor_matching_endpoint_status:
  assumes "fst (doctor_matching_endpoint verr doctor_symptoms_matching request w) = Raise_HTTPException code d"
  shows "code = 500 \<and> prefix ''Error processing doctor matching request: '' d"
  using assms unfolding doctor_matching_endpoint_outcome by (rule handled_status)

lemma doctor_matching_endpoint_escapes:
  assumes "fst (doctor_matching_endpoint verr doctor_symptoms_matching request w) = Propagate e"
  shows "fst (doctor_symptoms_matching (symptoms request) w) = Inl e \<and> \<not> isinstance_Exception e"
  using assms unfolding doctor_matching_endpoint_outcome
  by (rule handled_escapes) (rule DoctorMatchingResponse_from_Exception)

lemma doctor_matching_endpoint_Exception:
  assumes "doctor_symptoms_matching (symptoms request) w = (Inl e, w')" and "isinstance_Exception e"
  shows "fst (doctor_matching_endpoint verr doctor_symptoms_matching request w) =
           Raise_HTTPException 500 (''Error processing doctor matching request: '' @ str_exc e)"
  using assms by (simp add: doctor_matching_endpoint_raised except_Exception_caught)

lemma doctor_matching_endpoint_HTTPException:
  assumes "doctor_symptoms_matching (symptoms request) w = (Inl (HTTPException code detail s), w')"
  shows "fst (doctor_matching_endpoint verr doctor_symptoms_matching request w) =
           Raise_HTTPException 500 (''Error processing doctor matching request: '' @ s)"
  using assms by (simp add: doctor_matching_endpoint_raised except_Exception_def)

lemma affirmations_endpoint_status:
  assumes "fst (affirmations_endpoint verr affirmation_recommendation request w) = Raise_HTTPException code d"
  shows "code = 500 \<and> prefix ''Error processing affirmation request: '' d"
  using assms unfolding affirmations_endpoint_outcome by (rule handled_status)

lemma affirmations_endpoint_escapes:
  assumes "fst (affirmations_endpoint verr affirmation_recommendation request w) = Propagate e"
  shows "fst (affirmation_recommendation (categories request) w) = Inl e \<and> \<not> isinstance_Exception e"
  using assms unfolding affirmations_endpoint_outcome
  by (rule handled_escapes) (rule AffirmationResponse_from_Exception)

lemma affirmations_endpoint_Exception:
  assumes "affirmation_recommendation (categories request) w = (Inl e, w')" and "isinstance_Exception e"
  shows "fst (affirmations_endpoint verr affirmation_recommendation request w) =
           Raise_HTTPException 500 (''Error processing affirmation request: '' @ str_exc e)"
  using assms by (simp add: affirmations_endpoint_raised except_Exception_caught)

lemma affirmations_endpoint_HTTPException:
  assumes "affirmation_recommendation (categories request) w = (Inl (HTTPException code detail s), w')"
  shows "fst (affirmations_endpoint verr affirmation_recommendation request w) =
           Raise_HTTPException 500 (''Error processing affirmation request: '' @ s)"
  using assms by (simp add: affirmations_endpoint_raised except_Exception_def)

lemma product_recommendations_endpoint_status:
  assumes "fst (product_recommendations_endpoint verr product_recommendation request w) = Raise_HTTPException code d"
  shows "code = 500 \<and> prefix ''Error processing product recommendation request: '' d"
  using assms unfolding product_recommendations_endpoint_outcome by (rule handled_status)

lemma product_recommendations_endpoint_escapes:
  assumes "fst (product_recommendations_endpoint verr product_recommendation request w) = Propagate e"
  shows "fst (product_recommendation (user_input request) w) = Inl e \<and> \<not> isinstance_Exception e"
  using assms unfolding product_recommendations_endpoint_outcome
  by (rule handled_escapes) (rule ProductRecommendationResponse_from_Exception)

lemma product_recommendations_endpoint_Exception:
  assumes "product_recommendation (user_input request) w = (Inl e, w')" and "isinstance_Exception e"
  shows "fst (product_recommendations_endpoint verr product_recommendation request w) =
           Raise_HTTPException 500
               (''Error processing product recommendation request: '' @ str_exc e)"
  using assms by (simp add: product_recommendations_endpoint_raised except_Exception_caught)

lemma product_recommendations_endpoint_HTTPException:
  assumes "product_recommendation (user_input request) w = (Inl (HTTPException code detail s), w')"
  shows "fst (product_recommendations_endpoint verr product_recommendation request w) =
           Raise_HTTPException 500 (''Error processing product recommendation request: '' @ s)"
  using assms by (simp add: product_recommendations_endpoint_raised except_Exception_def)

text \<open>
  Claim C8, as amended. For each of the four POST handlers:
  \<^item> any exception the pipeline raises that is an instance of \<open>Exception\<close> is caught
    and raised again as \<open>HTTPException\<close> with status code 500 and a detail that is the
    handler's prefix followed by \<open>str\<close> of the exception;
  \<^item> so is, in particular, an \<open>HTTPException\<close> that the pipeline raises, whatever its
    own status code;
  \<^item> whenever the handler raises an \<open>HTTPException\<close>, whatever the pipeline did, its
    status code is 500 and its detail starts with the handler's prefix;
  \<^item> an exception leaves the handler only when the pipeline raised it and it is no
    instance of \<open>Exception\<close>.
\<close>

theorem handled_exception_status_is_500:
  "(chatbot_qa'' (query rq) u1 = (Inl x1, u1') \<and> isinstance_Exception x1
    \<longrightarrow> fst (qa_endpoint verr chatbot_qa'' rq u1) =
          Raise_HTTPException 500 (''Error processing Q&A request: '' @ str_exc x1)) \<and>
   (chatbot_qa (query rq) w1 = (Inl (HTTPException code1 detail1 s1), w1')
    \<longrightarrow> fst (qa_endpoint verr chatbot_qa rq w1) =
          Raise_HTTPException 500 (''Error processing Q&A request: '' @ s1)) \<and>
   (fst (qa_endpoint verr chatbot_qa rq w1) = Raise_HTTPException c1 d1
    \<longrightarrow> c1 = 500 \<and> prefix ''Error processing Q&A request: '' d1) \<and>
   (fst (qa_endpoint verr chatbot_qa' rq v1) = Propagate e1
    \<longrightarrow> fst (chatbot_qa' (query rq) v1) = Inl e1 \<and> \<not> isinstance_Exception e1) \<and>
   (doctor_symptoms_matching'' (symptoms rd) u2 = (Inl x2, u2') \<and> isinstance_Exception x2
    \<longrightarrow> fst (doctor_matching_endpoint verr doctor_symptoms_matching'' rd u2) =
          Raise_HTTPException 500
              (''Error processing doctor matching request: '' @ str_exc x2)) \<and>
   (doctor_symptoms_matching (symptoms rd) w2 = (Inl (HTTPException code2 detail2 s2), w2')
    \<longrightarrow> fst (doctor_matching_endpoint verr doctor_symptoms_matching rd w2) =
          Raise_HTTPException 500 (''Error processing doctor matching request: '' @ s2)) \<and>
   (fst (doctor_matching_endpoint verr doctor_symptoms_matching rd w2) = Raise_HTTPException c2 d2
    \<longrightarrow> c2 = 500 \<and> prefix ''Error processing doctor matching request: '' d2) \<and>
   (fst (doctor_matching_endpoint verr doctor_symptoms_matching' rd v2) = Propagate e2
    \<longrightarrow> fst (doctor_symptoms_matching' (symptoms rd) v2) = Inl e2 \<and> \<not> isinstance_Exception e2) \<and>
   (affirmation_recommendation'' (categories ra) u3 = (Inl x3, u3') \<and> isinstance_Exception x3
    \<longrightarrow> fst (affirmations_endpoint verr affirmation_recommendation'' ra u3) =
          Raise_HTTPException 500
              (''Error processing affirmation request: '' @ str_exc x3)) \<and>
   (affirmation_recommendation (categories ra) w3 = (Inl (HTTPException code3 detail3 s3), w3')
    \<longrightarrow> fst (affirmations_endpoint verr affirmation_recommendation ra w3) =
          Raise_HTTPException 500 (''Error processing affirmation request: '' @ s3)) \<and>
   (fst (affirmations_endpoint verr affirmation_recommendation ra w3) = Raise_HTTPException c3 d3
    \<longrightarrow> c3 = 500 \<and> prefix ''Error processing affirmation request: '' d3) \<and>
   (fst (affirmations_endpoint verr affirmation_recommendation' ra v3) = Propagate e3
    \<longrightarrow> fst (affirmation_recommendation' (categories ra) v3) = Inl e3 \<and> \<not> isinstance_Exception e3) \<and>
   (product_recommendation'' (user_input rp) u4 = (Inl x4, u4') \<and> isinstance_Exception x4
    \<longrightarrow> fst (product_recommendations_endpoint verr product_recommendation'' rp u4) =
          Raise_HTTPException 500
              (''Error processing product recommendation request: '' @ str_exc x4)) \<and>
   (product_recommendation (user_input rp) w4 = (Inl (HTTPException code4 detail4 s4), w4')
    \<longrightarrow> fst (product_recommendations_endpoint verr product_recommendation rp w4) =
          Raise_HTTPException 500
              (''Error processing product recommendation request: '' @ s4)) \<and>
   (fst (product_recommendations_endpoint verr product_recommendation rp w4) = Raise_HTTPException c4 d4
    \<longrightarrow> c4 = 500 \<and> prefix ''Error processing product recommendation request: '' d4) \<and>
   (fst (product_recommendations_endpoint verr product_recommendation' rp v4) = Propagate e4
    \<longrightarrow> fst (product_recommendation' (user_input rp) v4) = Inl e4 \<and> \<not> isinstance_Exception e4)"
  by (intro conjI impI; (elim conjE)?)
    (erule (1) qa_endpoint_Exception doctor_matching_endpoint_Exception
       affirmations_endpoint_Exception product_recommendations_endpoint_Exception
     | erule qa_endpoint_HTTPException qa_endpoint_status[THEN conjunct1]
         qa_endpoint_status[THEN conjunct2] qa_endpoint_escapes[THEN conjunct1]
         qa_endpoint_escapes[THEN conjunct2]
         doctor_matching_endpoint_HTTPException
         doctor_matching_endpoint_status[THEN conjunct1]
         doctor_matching_endpoint_status[THEN conjunct2]
         doctor_matching_endpoint_escapes[THEN conjunct1]
         doctor_matching_endpoint_escapes[THEN conjunct2]
         affirmations_endpoint_HTTPException affirmations_endpoint_status[THEN conjunct1]
         affirmations_endpoint_status[THEN conjunct2]
         affirmations_endpoint_escapes[THEN conjunct1]
         affirmations_endpoint_escapes[THEN conjunct2]
         product_recommendations_endpoint_HTTPException
         product_recommendations_endpoint_status[THEN conjunct1]
         product_recommendations_endpoint_status[THEN conjunct2]
         product_recommendations_endpoint_escapes[THEN conjunct1]
         product_recommendations_endpoint_escapes[THEN conjunct2])+

theorem handled_exception_status_is_500_witness:
  "fst (qa_endpoint brief (raising index_unavailable) qa_request ()) =
     Raise_HTTPException 500 (''Error processing Q&A request: '' @ ''index unavailable'') \<and>
   fst (qa_endpoint brief (raising not_found) qa_request ()) =
     Raise_HTTPException 500 (''Error processing Q&A request: '' @ ''404: Not Found'') \<and>
   prefix ''Error processing Q&A request: ''
       (''Error processing Q&A request: '' @ ''404: Not Found'') \<and>
   fst (qa_endpoint brief (raising system_exit) qa_request ()) =
     Propagate system_exit \<and>
   fst (doctor_matching_endpoint brief (raising index_unavailable) doctor_request ()) =
     Raise_HTTPException 500
         (''Error processing doctor matching request: '' @ ''index unavailable'') \<and>
   fst (doctor_matching_endpoint brief (raising not_found) doctor_request ()) =
     Raise_HTTPException 500
         (''Error processing doctor matching request: '' @ ''404: Not Found'') \<and>
   prefix ''Error processing doctor matching request: ''
       (''Error processing doctor matching request: '' @ ''404: Not Found'') \<and>
   fst (doctor_matching_endpoint brief (raising system_exit) doctor_request ()) =
     Propagate system_exit \<and>
   fst (affirmations_endpoint brief (raising index_unavailable) affirmation_request ()) =
     Raise_HTTPException 500
         (''Error processing affirmation request: '' @ ''index unavailable'') \<and>
   fst (affirmations_endpoint brief (raising not_found) affirmation_request ()) =
     Raise_HTTPException 500
         (''Error processing affirmation request: '' @ ''404: Not Found'') \<and>
   prefix ''Error processing affirmation request: ''
       (''Error processing affirmation request: '' @ ''404: Not Found'') \<and>
   fst (affirmations_endpoint brief (raising system_exit) affirmation_request ()) =
     Propagate system_exit \<and>
   fst (product_recommendations_endpoint brief (raising index_unavailable) product_request ()) =
     Raise_HTTPException 500
         (''Error processing product recommendation request: '' @ ''index unavailable'') \<and>
   fst (product_recommendations_endpoint brief (raising not_found) product_request ()) =
     Raise_HTTPException 500
         (''Error processing product recommendation request: '' @ ''404: Not Found'') \<and>
   prefix ''Error processing product recommendation request: ''
       (''Error processing product recommendation request: '' @ ''404: Not Found'') \<and>
   fst (product_recommendations_endpoint brief (raising system_exit) product_request ()) =
     Propagate system_exit \<and>
   isinstance_Exception index_unavailable \<and> \<not> isinstance_Exception system_exit"
  using handled_exception_status_is_500
    [where verr = brief
       and chatbot_qa = "raising not_found" and chatbot_qa' = "raising system_exit"
       and rq = qa_request and ?w1.0 = "()" and ?w1' = "()" and ?v1.0 = "()"
       and ?code1.0 = 404 and ?detail1.0 = "''Not Found''" and ?s1.0 = "''404: Not Found''"
       and ?c1.0 = 500 and ?d1.0 = "''Error processing Q&A request: '' @ ''404: Not Found''"
       and ?e1.0 = system_exit
       and chatbot_qa'' = "raising index_unavailable" and ?x1.0 = index_unavailable
       and ?u1.0 = "()" and ?u1' = "()"
       and doctor_symptoms_matching = "raising not_found" and doctor_symptoms_matching' = "raising system_exit"
       and rd = doctor_request and ?w2.0 = "()" and ?w2' = "()" and ?v2.0 = "()"
       and ?code2.0 = 404 and ?detail2.0 = "''Not Found''" and ?s2.0 = "''404: Not Found''"
       and ?c2.0 = 500 and ?d2.0 = "''Error processing doctor matching request: '' @ ''404: Not Found''"
       and ?e2.0 = system_exit
       and doctor_symptoms_matching'' = "raising index_unavailable" and ?x2.0 = index_unavailable
       and ?u2.0 = "()" and ?u2' = "()"
       and affirmation_recommendation = "raising not_found" and affirmation_recommendation' = "raising system_exit"
       and ra = affirmation_request and ?w3.0 = "()" and ?w3' = "()" and ?v3.0 = "()"
       and ?code3.0 = 404 and ?detail3.0 = "''Not Found''" and ?s3.0 = "''404: Not Found''"
       and ?c3.0 = 500 and ?d3.0 = "''Error processing affirmation request: '' @ ''404: Not Found''"
       and ?e3.0 = system_exit
       and affirmation_recommendation'' = "raising index_unavailable" and ?x3.0 = index_unavailable
       and ?u3.0 = "()" and ?u3' = "()"
       and product_recommendation = "raising not_found" and product_recommendation' = "raising system_exit"
       and rp = product_request and ?w4.0 = "()" and ?w4' = "()" and ?v4.0 = "()"
       and ?code4.0 = 404 and ?detail4.0 = "''Not Found''" and ?s4.0 = "''404: Not Found''"
       and ?c4.0 = 500 and ?d4.0 = "''Error processing product recommendation request: '' @ ''404: Not Found''"
       and ?e4.0 = system_exit
       and product_recommendation'' = "raising index_unavailable" and ?x4.0 = index_unavailable
       and ?u4.0 = "()" and ?u4' = "()"]
  by (simp add: raising_def not_found_def system_exit_def index_unavailable_def qa_endpoint_def
      doctor_matching_endpoint_def affirmations_endpoint_def
      product_recommendations_endpoint_def except_Exception_def)

text \<open>
  The claim as first stated speaks of any exception the pipeline raises. \<open>SystemExit\<close>
  (raised by \<open>sys.exit\<close>) derives from \<open>BaseException\<close> only: it is not matched by
  \<open>except Exception\<close>, and the handler reports nothing.
\<close>

theorem system_exit_not_caught:
  "raising (BaseException ''SystemExit'' ''1'')
     (query \<lparr>query = ''What is perimenopause?''\<rparr>) ()
     = (Inl (BaseException ''SystemExit'' ''1''), ()) \<and>
   fst (qa_endpoint brief (raising (BaseException ''SystemExit'' ''1''))
          \<lparr>query = ''What is perimenopause?''\<rparr> ()) =
     Propagate (BaseException ''SystemExit'' ''1'') \<and>
   fst (qa_endpoint brief (raising (BaseException ''SystemExit'' ''1''))
          \<lparr>query = ''What is perimenopause?''\<rparr> ()) \<noteq>
     Raise_HTTPException 500
       (''Error processing Q&A request: '' @ str_exc (BaseException ''SystemExit'' ''1''))"
  by (simp add: raising_def qa_endpoint_def except_Exception_def)

subsection \<open>Keys the handlers do not read\<close>

lemma str_field_Some: "str_field v = Some s \<longleftrightarrow> v = PyStr s"
  by (cases v) auto

lemma QAResponse_from_other_key:
  "k \<notin> {''response'', ''retrieved_documents''} \<Longrightarrow>
   fst (QAResponse_from verr (result(k \<mapsto> x))) = fst (QAResponse_from verr result)"
  by (auto simp: QAResponse_from_value split: option.splits)

lemma qa_endpoint_model:
  assumes "chatbot_qa (query request) w = (Inr result, w')"
    and "fst (qa_endpoint verr chatbot_qa request w) = Return r"
  shows "\<exists>s docs k.
           result ''response'' = Some (PyStr s) \<and>
           result ''retrieved_documents'' = Some docs \<and> py_len docs = Inr k \<and>
           r = \<lparr>QAResponse.response = s, QAResponse.retrieved_documents_count = int k\<rparr>"
  using assms
  by (auto simp: qa_endpoint_returned QAResponse_from_value QAResponse_init_def
      except_Exception_def str_field_Some split: option.splits sum.splits if_splits)

lemma qa_endpoint_other_key:
  assumes "chatbot_qa (query request) w = (Inr result, w')"
    and "chatbot_qa' (query request) v = (Inr (result(k \<mapsto> x)), v')"
    and "k \<notin> {''response'', ''retrieved_documents''}"
  shows "fst (qa_endpoint verr chatbot_qa' request v) =
         fst (qa_endpoint verr chatbot_qa request w)"
  using assms by (simp add: qa_endpoint_outcome QAResponse_from_other_key)

lemma DoctorMatchingResponse_from_other_key:
  "k \<notin> {''response'', ''retrieved_documents''} \<Longrightarrow>
   fst (DoctorMatchingResponse_from verr (result(k \<mapsto> x))) = fst (DoctorMatchingResponse_from verr result)"
  by (auto simp: DoctorMatchingResponse_from_value split: option.splits)

lemma doctor_matching_endpoint_model:
  assumes "doctor_symptoms_matching (symptoms request) w = (Inr result, w')"
    and "fst (doctor_matching_endpoint verr doctor_symptoms_matching request w) = Return r"
  shows "\<exists>s docs k.
           result ''response'' = Some (PyStr s) \<and>
           result ''retrieved_documents'' = Some docs \<and> py_len docs = Inr k \<and>
           r = \<lparr>DoctorMatchingResponse.response = s, DoctorMatchingResponse.retrieved_documents_count = int k\<rparr>"
  using assms
  by (auto simp: doctor_matching_endpoint_returned DoctorMatchingResponse_from_value
      DoctorMatchingResponse_init_def
      except_Exception_def str_field_Some split: option.splits sum.splits if_splits)

lemma doctor_matching_endpoint_other_key:
  assumes "doctor_symptoms_matching (symptoms request) w = (Inr result, w')"
    and "doctor_symptoms_matching' (symptoms request) v = (Inr (result(k \<mapsto> x)), v')"
    and "k \<notin> {''response'', ''retrieved_documents''}"
  shows "fst (doctor_matching_endpoint verr doctor_symptoms_matching' request v) =
         fst (doctor_matching_endpoint verr doctor_symptoms_matching request w)"
  using assms by (simp add: doctor_matching_endpoint_outcome
      DoctorMatchingResponse_from_other_key)

lemma AffirmationResponse_from_other_key:
  "k \<notin> {''response'', ''affirmations'', ''retrieved_documents''} \<Longrightarrow>
   fst (AffirmationResponse_from verr (result(k \<mapsto> x))) = fst (AffirmationResponse_from verr result)"
  by (auto simp: AffirmationResponse_from_value split: option.splits)

lemma affirmations_endpoint_model:
  assumes "affirmation_recommendation (categories request) w = (Inr result, w')"
    and "fst (affirmations_endpoint verr affirmation_recommendation request w) = Return r"
  shows "\<exists>s docs k xs.
           result ''response'' = Some (PyStr s) \<and>
           result ''retrieved_documents'' = Some docs \<and> py_len docs = Inr k \<and>
           list_str_field (case result ''affirmations'' of None \<Rightarrow> PyList [] | Some a \<Rightarrow> a) =
             Some xs \<and>
           r = \<lparr>AffirmationResponse.response = s, AffirmationResponse.affirmations = xs,
                AffirmationResponse.retrieved_documents_count = int k\<rparr>"
  using assms
  by (auto simp: affirmations_endpoint_returned AffirmationResponse_from_value
      AffirmationResponse_init_def
      except_Exception_def str_field_Some split: option.splits sum.splits if_splits)

lemma affirmations_endpoint_other_key:
  assumes "affirmation_recommendation (categories request) w = (Inr result, w')"
    and "affirmation_recommendation' (categories request) v = (Inr (result(k \<mapsto> x)), v')"
    and "k \<notin> {''response'', ''affirmations'', ''retrieved_documents''}"
  shows "fst (affirmations_endpoint verr affirmation_recommendation' request v) =
         fst (affirmations_endpoint verr affirmation_recommendation request w)"
  using assms by (simp add: affirmations_endpoint_outcome AffirmationResponse_from_other_key)

lemma ProductRecommendationResponse_from_other_key:
  "k \<notin> {''response'', ''products'', ''retrieved_documents''} \<Longrightarrow>
   fst (ProductRecommendationResponse_from verr (result(k \<mapsto> x))) = fst (ProductRecommendationResponse_from verr result)"
  by (auto simp: ProductRecommendationResponse_from_value split: option.splits)

lemma product_recommendations_endpoint_model:
  assumes "product_recommendation (user_input request) w = (Inr result, w')"
    and "fst (product_recommendations_endpoint verr product_recommendation request w) = Return r"
  shows "\<exists>s docs k xs.
           result ''response'' = Some (PyStr s) \<and>
           result ''retrieved_documents'' = Some docs \<and> py_len docs = Inr k \<and>
           list_str_field (case result ''products'' of None \<Rightarrow> PyList [] | Some a \<Rightarrow> a) =
             Some xs \<and>
           r = \<lparr>ProductRecommendationResponse.response = s, ProductRecommendationResponse.products = xs,
                ProductRecommendationResponse.retrieved_documents_count = int k\<rparr>"
  using assms
  by (auto simp: product_recommendations_endpoint_returned
      ProductRecommendationResponse_from_value ProductRecommendationResponse_init_def
      except_Exception_def str_field_Some split: option.splits sum.splits if_splits)

lemma product_recommendations_endpoint_other_key:
  assumes "product_recommendation (user_input request) w = (Inr result, w')"
    and "product_recommendation' (user_input request) v = (Inr (result(k \<mapsto> x)), v')"
    and "k \<notin> {''response'', ''products'', ''retrieved_documents''}"
  shows "fst (product_recommendations_endpoint verr product_recommendation' request v) =
         fst (product_recommendations_endpoint verr product_recommendation request w)"
  using assms by (simp add: product_recommendations_endpoint_outcome
      ProductRecommendationResponse_from_other_key)

text \<open>
  Claim C9. The value a POST handler returns is its response model, a record of the
  fields the schema declares and of no other. For each of the four handlers: building the
  model leaves the result dictionary as it was, and a key of the result other than the
  ones the handler reads (\<open>response\<close>, \<open>retrieved_documents\<close>, and \<open>affirmations\<close> or
  \<open>products\<close> where the schema has it) changes nothing of what the handler returns.
\<close>

theorem response_built_from_declared_keys:
  "snd (QAResponse_from verr result1) = result1 \<and>
   (chatbot_qa (query rq) w1 = (Inr result1, w1') \<and>
    fst (qa_endpoint verr chatbot_qa rq w1) = Return r1
    \<longrightarrow> (\<exists>s docs k.
               result1 ''response'' = Some (PyStr s) \<and>
               result1 ''retrieved_documents'' = Some docs \<and> py_len docs = Inr k \<and>
               r1 = \<lparr>QAResponse.response = s, QAResponse.retrieved_documents_count = int k\<rparr>)) \<and>
   (chatbot_qa (query rq) w1 = (Inr result1, w1') \<and>
    chatbot_qa' (query rq) v1 = (Inr (result1(k1 \<mapsto> x1)), v1') \<and>
    k1 \<notin> {''response'', ''retrieved_documents''}
    \<longrightarrow> fst (qa_endpoint verr chatbot_qa' rq v1) =
        fst (qa_endpoint verr chatbot_qa rq w1)) \<and>
   snd (DoctorMatchingResponse_from verr result2) = result2 \<and>
   (doctor_symptoms_matching (symptoms rd) w2 = (Inr result2, w2') \<and>
    fst (doctor_matching_endpoint verr doctor_symptoms_matching rd w2) = Return r2
    \<longrightarrow> (\<exists>s docs k.
               result2 ''response'' = Some (PyStr s) \<and>
               result2 ''retrieved_documents'' = Some docs \<and> py_len docs = Inr k \<and>
               r2 = \<lparr>DoctorMatchingResponse.response = s, DoctorMatchingResponse.retrieved_documents_count = int k\<rparr>)) \<and>
   (doctor_symptoms_matching (symptoms rd) w2 = (Inr result2, w2') \<and>
    doctor_symptoms_matching' (symptoms rd) v2 = (Inr (result2(k2 \<mapsto> x2)), v2') \<and>
    k2 \<notin> {''response'', ''retrieved_documents''}
    \<longrightarrow> fst (doctor_matching_endpoint verr doctor_symptoms_matching' rd v2) =
        fst (doctor_matching_endpoint verr doctor_symptoms_matching rd w2)) \<and>
   snd (AffirmationResponse_from verr result3) = result3 \<and>
   (affirmation_recommendation (categories ra) w3 = (Inr result3, w3') \<and>
    fst (affirmations_endpoint verr affirmation_recommendation ra w3) = Return r3
    \<longrightarrow> (\<exists>s docs k xs.
               result3 ''response'' = Some (PyStr s) \<and>
               result3 ''retrieved_documents'' = Some docs \<and> py_len docs = Inr k \<and>
               list_str_field (case result3 ''affirmations'' of None \<Rightarrow> PyList [] | Some a \<Rightarrow> a) =
                 Some xs \<and>
               r3 = \<lparr>AffirmationResponse.response = s, AffirmationResponse.affirmations = xs,
                    AffirmationResponse.retrieved_documents_count = int k\<rparr>)) \<and>
   (affirmation_recommendation (categories ra) w3 = (Inr result3, w3') \<and>
    affirmation_recommendation' (categories ra) v3 = (Inr (result3(k3 \<mapsto> x3)), v3') \<and>
    k3 \<notin> {''response'', ''affirmations'', ''retrieved_documents''}
    \<longrightarrow> fst (affirmations_endpoint verr affirmation_recommendation' ra v3) =
        fst (affirmations_endpoint verr affirmation_recommendation ra w3)) \<and>
   snd (ProductRecommendationResponse_from verr result4) = result4 \<and>
   (product_recommendation (user_input rp) w4 = (Inr result4, w4') \<and>
    fst (product_recommendations_endpoint verr product_recommendation rp w4) = Return r4
    \<longrightarrow> (\<exists>s docs k xs.
               result4 ''response'' = Some (PyStr s) \<and>
               result4 ''retrieved_documents'' = Some docs \<and> py_len docs = Inr k \<and>
               list_str_field (case result4 ''products'' of None \<Rightarrow> PyList [] | Some a \<Rightarrow> a) =
                 Some xs \<and>
               r4 = \<lparr>ProductRecommendationResponse.response = s, ProductRecommendationResponse.products = xs,
                    ProductRecommendationResponse.retrieved_documents_count = int k\<rparr>)) \<and>
   (product_recommendation (user_input rp) w4 = (Inr result4, w4') \<and>
    product_recommendation' (user_input rp) v4 = (Inr (result4(k4 \<mapsto> x4)), v4') \<and>
    k4 \<notin> {''response'', ''products'', ''retrieved_documents''}
    \<longrightarrow> fst (product_recommendations_endpoint verr product_recommendation' rp v4) =
        fst (product_recommendations_endpoint verr product_recommendation rp w4))"
  by (intro conjI impI; (elim conjE)?)
    (rule QAResponse_from_unchanged DoctorMatchingResponse_from_unchanged
       AffirmationResponse_from_unchanged ProductRecommendationResponse_from_unchanged
     | erule (1) qa_endpoint_model doctor_matching_endpoint_model
         affirmations_endpoint_model product_recommendations_endpoint_model
     | erule (2) qa_endpoint_other_key doctor_matching_endpoint_other_key
         affirmations_endpoint_other_key product_recommendations_endpoint_other_key)+

theorem response_built_from_declared_keys_witness:
  "snd (QAResponse_from brief qa_result) = qa_result \<and>
   fst (qa_endpoint brief (returning extended_result) qa_request ()) =
     Return \<lparr>QAResponse.response = ''It is...'', QAResponse.retrieved_documents_count = 2\<rparr> \<and>
   fst (qa_endpoint brief (returning qa_result) qa_request ()) =
     Return \<lparr>QAResponse.response = ''It is...'', QAResponse.retrieved_documents_count = 2\<rparr> \<and>
   snd (DoctorMatchingResponse_from brief qa_result) = qa_result \<and>
   fst (doctor_matching_endpoint brief (returning extended_result) doctor_request ()) =
     Return \<lparr>DoctorMatchingResponse.response = ''It is...'',
               DoctorMatchingResponse.retrieved_documents_count = 2\<rparr> \<and>
   fst (doctor_matching_endpoint brief (returning qa_result) doctor_request ()) =
     Return \<lparr>DoctorMatchingResponse.response = ''It is...'',
               DoctorMatchingResponse.retrieved_documents_count = 2\<rparr> \<and>
   snd (AffirmationResponse_from brief qa_result) = qa_result \<and>
   fst (affirmations_endpoint brief (returning extended_result) affirmation_request ()) =
     Return \<lparr>AffirmationResponse.response = ''It is...'',
               AffirmationResponse.affirmations = [],
               AffirmationResponse.retrieved_documents_count = 2\<rparr> \<and>
   fst (affirmations_endpoint brief (returning qa_result) affirmation_request ()) =
     Return \<lparr>AffirmationResponse.response = ''It is...'',
               AffirmationResponse.affirmations = [],
               AffirmationResponse.retrieved_documents_count = 2\<rparr> \<and>
   snd (ProductRecommendationResponse_from brief qa_result) = qa_result \<and>
   fst (product_recommendations_endpoint brief (returning extended_result) product_request ()) =
     Return \<lparr>ProductRecommendationResponse.response = ''It is...'',
               ProductRecommendationResponse.products = [],
               ProductRecommendationResponse.retrieved_documents_count = 2\<rparr> \<and>
   fst (product_recommendations_endpoint brief (returning qa_result) product_request ()) =
     Return \<lparr>ProductRecommendationResponse.response = ''It is...'',
               ProductRecommendationResponse.products = [],
               ProductRecommendationResponse.retrieved_documents_count = 2\<rparr> \<and>
   ''sources'' \<notin> {''response'', ''affirmations'', ''products'', ''retrieved_documents''}"
  using response_built_from_declared_keys
    [where verr = brief
       and chatbot_qa = "returning qa_result"
       and chatbot_qa' = "returning extended_result"
       and rq = qa_request and ?result1.0 = qa_result
       and ?k1.0 = "''sources''" and ?x1.0 = "PyList [PyStr ''handbook.pdf'']"
       and ?w1.0 = "()" and ?w1' = "()" and ?v1.0 = "()" and ?v1' = "()"
       and ?r1.0 = "\<lparr>QAResponse.response = ''It is...'', QAResponse.retrieved_documents_count = 2\<rparr>"
       and doctor_symptoms_matching = "returning qa_result"
       and doctor_symptoms_matching' = "returning extended_result"
       and rd = doctor_request and ?result2.0 = qa_result
       and ?k2.0 = "''sources''" and ?x2.0 = "PyList [PyStr ''handbook.pdf'']"
       and ?w2.0 = "()" and ?w2' = "()" and ?v2.0 = "()" and ?v2' = "()"
       and ?r2.0 = "\<lparr>DoctorMatchingResponse.response = ''It is...'',
               DoctorMatchingResponse.retrieved_documents_count = 2\<rparr>"
       and affirmation_recommendation = "returning qa_result"
       and affirmation_recommendation' = "returning extended_result"
       and ra = affirmation_request and ?result3.0 = qa_result
       and ?k3.0 = "''sources''" and ?x3.0 = "PyList [PyStr ''handbook.pdf'']"
       and ?w3.0 = "()" and ?w3' = "()" and ?v3.0 = "()" and ?v3' = "()"
       and ?r3.0 = "\<lparr>AffirmationResponse.response = ''It is...'',
               AffirmationResponse.affirmations = [],
               AffirmationResponse.retrieved_documents_count = 2\<rparr>"
       and product_recommendation = "returning qa_result"
       and product_recommendation' = "returning extended_result"
       and rp = product_request and ?result4.0 = qa_result
       and ?k4.0 = "''sources''" and ?x4.0 = "PyList [PyStr ''handbook.pdf'']"
       and ?w4.0 = "()" and ?w4' = "()" and ?v4.0 = "()" and ?v4' = "()"
       and ?r4.0 = "\<lparr>ProductRecommendationResponse.response = ''It is...'',
               ProductRecommendationResponse.products = [],
               ProductRecommendationResponse.retrieved_documents_count = 2\<rparr>"]
  by (simp add: returning_def extended_result_def qa_result_def result_of_def doc_def
      qa_request_def doctor_request_def affirmation_request_def product_request_def
      qa_endpoint_def doctor_matching_endpoint_def affirmations_endpoint_def
      product_recommendations_endpoint_def QAResponse_from_value
      DoctorMatchingResponse_from_value AffirmationResponse_from_value
      ProductRecommendationResponse_from_value QAResponse_init_def
      DoctorMatchingResponse_init_def AffirmationResponse_init_def
      ProductRecommendationResponse_init_def)

subsection \<open>The handlers as functions of the pipeline's outcome\<close>

text \<open>
  Claim C10. For each of the four POST handlers: two runs on the same request in which
  the pipeline call gives the same outcome (the same result dictionary, or the same
  exception) end in the same outcome of the handler, whatever the pipeline functions and
  the worlds of the two runs are.
\<close>

theorem handler_outcome_determined:
  "(fst (chatbot_qa (query rq) w1) = fst (chatbot_qa' (query rq) v1)
    \<longrightarrow> fst (qa_endpoint verr chatbot_qa rq w1) =
        fst (qa_endpoint verr chatbot_qa' rq v1)) \<and>
   (fst (doctor_symptoms_matching (symptoms rd) w2) = fst (doctor_symptoms_matching' (symptoms rd) v2)
    \<longrightarrow> fst (doctor_matching_endpoint verr doctor_symptoms_matching rd w2) =
        fst (doctor_matching_endpoint verr doctor_symptoms_matching' rd v2)) \<and>
   (fst (affirmation_recommendation (categories ra) w3) = fst (affirmation_recommendation' (categories ra) v3)
    \<longrightarrow> fst (affirmations_endpoint verr affirmation_recommendation ra w3) =
        fst (affirmations_endpoint verr affirmation_recommendation' ra v3)) \<and>
   (fst (product_recommendation (user_input rp) w4) = fst (product_recommendation' (user_input rp) v4)
    \<longrightarrow> fst (product_recommendations_endpoint verr product_recommendation rp w4) =
        fst (product_recommendations_endpoint verr product_recommendation' rp v4))"
  by (simp add: qa_endpoint_outcome doctor_matching_endpoint_outcome
      affirmations_endpoint_outcome product_recommendations_endpoint_outcome)

theorem handler_outcome_determined_witness:
  "fst (returning qa_result (query qa_request) ()) =
     fst (recording qa_result (query qa_request) []) \<and>
   fst (qa_endpoint brief (returning qa_result) qa_request ()) =
     fst (qa_endpoint brief (recording qa_result) qa_request []) \<and>
   fst (returning qa_result (symptoms doctor_request) ()) =
     fst (recording qa_result (symptoms doctor_request) []) \<and>
   fst (doctor_matching_endpoint brief (returning qa_result) doctor_request ()) =
     fst (doctor_matching_endpoint brief (recording qa_result) doctor_request []) \<and>
   fst (returning qa_result (categories affirmation_request) ()) =
     fst (recording qa_result (categories affirmation_request) []) \<and>
   fst (affirmations_endpoint brief (returning qa_result) affirmation_request ()) =
     fst (affirmations_endpoint brief (recording qa_result) affirmation_request []) \<and>
   fst (returning qa_result (user_input product_request) ()) =
     fst (recording qa_result (user_input product_request) []) \<and>
   fst (product_recommendations_endpoint brief (returning qa_result) product_request ()) =
     fst (product_recommendations_endpoint brief (recording qa_result) product_request [])"
  using handler_outcome_determined
    [where verr = brief
       and chatbot_qa = "returning qa_result" and chatbot_qa' = "recording qa_result"
       and rq = qa_request and ?w1.0 = "()" and ?v1.0 = "[]"
       and doctor_symptoms_matching = "returning qa_result" and doctor_symptoms_matching' = "recording qa_result"
       and rd = doctor_request and ?w2.0 = "()" and ?v2.0 = "[]"
       and affirmation_recommendation = "returning qa_result" and affirmation_recommendation' = "recording qa_result"
       and ra = affirmation_request and ?w3.0 = "()" and ?v3.0 = "[]"
       and product_recommendation = "returning qa_result" and product_recommendation' = "recording qa_result"
       and rp = product_request and ?w4.0 = "()" and ?v4.0 = "[]"]
  by (simp add: returning_def recording_def)

end
